theory Spec2Isabelle
  imports Main "HOL-Library.Word"
begin

section \<open>Python values, exceptions and the HDFS client\<close>

text \<open>
  A shallow embedding of \<^verbatim>\<open>hdfscm/hdfsmanager.py\<close> (class \<^verbatim>\<open>HDFSContentsManager\<close>).
  Python strings are \<open>string\<close>, \<^verbatim>\<open>bytes\<close> are lists of 8-bit words, a raised exception
  is the \<open>Inl\<close> of a sum. A method that only reads the file system takes its state; a
  method that changes it returns the outcome together with the new state.
\<close>

type_synonym bytes = "8 word list"

text \<open>The values a model dictionary received from a client can hold.\<close>

datatype json =
    JNull
  | JBool bool
  | JNumber int
  | JString string
  | JArray "json list"
  | JObject "(string \<times> json) list"

text \<open>
  Exceptions that are not \<^verbatim>\<open>tornado.web.HTTPError\<close>: what the HDFS client, the standard
  library and the notebook libraries raise.
\<close>

datatype py_exn =
    PermissionError
  | KeyError string
  | OtherError string

text \<open>\<^verbatim>\<open>pyarrow.fs.FileType\<close> and \<^verbatim>\<open>pyarrow.fs.FileInfo\<close>.\<close>

datatype FileType = NotFound | Unknown | File | Directory

record FileInfo =
  info_path :: string
  info_type :: FileType
  info_size :: "nat option"
  info_mtime :: "int option"

text \<open>
  The message of each \<^verbatim>\<open>HTTPError\<close> the manager raises, one constructor per format
  string of the source, with the values it is formatted with.
\<close>

datatype message =
    Does_not_exist FileType string
  | Is_not_a string FileType
  | Cannot_read_non_file string
  | Is_not_UTF8_encoded string
  | Unreadable_Notebook string py_exn
  | No_such_file_or_directory string
  | Cannot_create_hidden_directory string
  | Not_a_directory string
  | Must_specify_format
  | Encoding_error_saving string py_exn
  | No_file_type_provided
  | No_file_content_provided
  | Unhandled_contents_type json
  | Directory_not_empty string
  | File_or_directory_does_not_exist string
  | File_already_exists string
  | Unknown_error_renaming_file string py_exn
  | Permission_denied string

datatype exn = HTTPError nat message | Raised py_exn

text \<open>
  \<^verbatim>\<open>self.fs\<close>, the \<^verbatim>\<open>pyarrow.fs.HadoopFileSystem\<close> client, over a state \<open>'s\<close> of the remote
  file system. Every call can raise; a call that writes returns the state it leaves
  behind, also when it raises. \<open>fs_list\<close> is \<^verbatim>\<open>get_file_info\<close> on a \<^verbatim>\<open>FileSelector\<close>,
  \<open>fs_open_input_stream\<close> is \<^verbatim>\<open>open_input_stream(p)\<close> followed by \<^verbatim>\<open>readall()\<close>, and
  \<open>fs_open_output_stream\<close> is \<^verbatim>\<open>open_output_stream(p)\<close> followed by \<^verbatim>\<open>write(b)\<close>.
\<close>

record 's filesystem =
  fs_get_file_info :: "'s \<Rightarrow> string \<Rightarrow> py_exn + FileInfo"
  fs_list :: "'s \<Rightarrow> string \<Rightarrow> bool \<Rightarrow> py_exn + FileInfo list"
  fs_open_input_stream :: "'s \<Rightarrow> string \<Rightarrow> py_exn + bytes"
  fs_open_output_stream :: "'s \<Rightarrow> string \<Rightarrow> bytes \<Rightarrow> (py_exn + unit) \<times> 's"
  fs_create_dir :: "'s \<Rightarrow> string \<Rightarrow> (py_exn + unit) \<times> 's"
  fs_delete_dir :: "'s \<Rightarrow> string \<Rightarrow> (py_exn + unit) \<times> 's"
  fs_delete_file :: "'s \<Rightarrow> string \<Rightarrow> (py_exn + unit) \<times> 's"
  fs_move :: "'s \<Rightarrow> string \<Rightarrow> string \<Rightarrow> (py_exn + unit) \<times> 's"

text \<open>
  The path functions of \<^verbatim>\<open>hdfscm/utils.py\<close>, which the manager imports. They are
  parameters of the model. The two that map a logical path to a physical one are total;
  the ones that read a physical path can raise.
\<close>

record utils =
  to_fs_path :: "string \<Rightarrow> string \<Rightarrow> string"
  get_prefix_from_fs_path :: "string \<Rightarrow> string \<Rightarrow> string \<Rightarrow> string"
  get_prefix_from_hdfs_path :: "string \<Rightarrow> string \<Rightarrow> string \<Rightarrow> py_exn + string"
  to_api_path :: "string \<Rightarrow> string \<Rightarrow> py_exn + string"
  utils_is_hidden :: "string \<Rightarrow> string \<Rightarrow> py_exn + bool"

text \<open>
  The standard library calls of the manager. \<open>decode_utf8\<close> is \<^verbatim>\<open>b.decode('utf8')\<close>
  (\<open>None\<close> is \<^verbatim>\<open>UnicodeError\<close>), \<open>encodebytes\<close> is \<^verbatim>\<open>encodebytes(b).decode('ascii')\<close>
  (total: base64 text is ASCII), \<open>encode_utf8\<close> is \<^verbatim>\<open>s.encode('utf8')\<close>, \<open>decodebytes\<close>
  is \<^verbatim>\<open>decodebytes(s.encode('ascii'))\<close>, and \<open>guess_type\<close> is
  \<^verbatim>\<open>mimetypes.guess_type(path)[0]\<close>.
\<close>

record stdlib =
  decode_utf8 :: "bytes \<Rightarrow> string option"
  encodebytes :: "bytes \<Rightarrow> string"
  encode_utf8 :: "string \<Rightarrow> py_exn + bytes"
  decodebytes :: "string \<Rightarrow> py_exn + bytes"
  guess_type :: "string \<Rightarrow> string option"

text \<open>
  The notebook collaborators: \<^verbatim>\<open>nbformat.reads\<close>, \<^verbatim>\<open>nbformat.from_dict\<close>,
  \<^verbatim>\<open>nbformat.writes\<close>, and the inherited \<^verbatim>\<open>mark_trusted_cells\<close>, \<^verbatim>\<open>check_and_sign\<close>
  and \<^verbatim>\<open>validate_notebook_model\<close>. The last one returns the \<^verbatim>\<open>'message'\<close> it stores in
  the model, if any.
\<close>

record notebooks =
  nb_reads :: "string \<Rightarrow> py_exn + json"
  nb_from_dict :: "json \<Rightarrow> py_exn + json"
  nb_writes :: "json \<Rightarrow> py_exn + string"
  mark_trusted_cells :: "json \<Rightarrow> string \<Rightarrow> py_exn + json"
  check_and_sign :: "json \<Rightarrow> string \<Rightarrow> py_exn + unit"
  validate_notebook_model :: "json \<Rightarrow> py_exn + json option"

text \<open>
  The manager object: its configuration, \<^verbatim>\<open>self.fs\<close> and its collaborators.
  \<open>checkpoint_dir\<close> is \<^verbatim>\<open>getattr(self.checkpoints, 'checkpoint_dir', None)\<close>.
\<close>

record 's manager =
  root_dir :: string
  shared_dir :: string
  allow_hidden :: bool
  checkpoint_dir :: "string option"
  should_list :: "string \<Rightarrow> bool"
  fs :: "'s filesystem"
  utils :: utils
  stdlib :: stdlib
  notebooks :: notebooks

text \<open>
  The model dictionary the manager returns. \<open>model_message\<close> is \<open>None\<close> when the
  dictionary has no \<^verbatim>\<open>'message'\<close> key.
\<close>

datatype model =
  Model
    (model_name: string)
    (model_path: string)
    (model_last_modified: "int option")
    (model_created: "int option")
    (model_type: string)
    (model_size: "nat option")
    (model_mimetype: "string option")
    (model_content: content)
    (model_format: "string option")
    (model_writable: bool)
    (model_message: "json option")
and content =
    ContentNone
  | ContentText string
  | ContentList "model list"
  | ContentNotebook json

section \<open>Helpers\<close>

text \<open>\<^verbatim>\<open>s.endswith(t)\<close>, \<^verbatim>\<open>s.startswith(t)\<close> and \<^verbatim>\<open>s.rsplit('/', 1)[-1]\<close>.\<close>

definition endswith :: "string \<Rightarrow> string \<Rightarrow> bool" where
  "endswith s t = (length t \<le> length s \<and> drop (length s - length t) s = t)"

definition startswith :: "string \<Rightarrow> string \<Rightarrow> bool" where
  "startswith s t = (take (length t) s = t)"

definition rsplit_last :: "string \<Rightarrow> string" where
  "rsplit_last s = rev (takeWhile (\<lambda>c. c \<noteq> CHR ''/'') (rev s))"

text \<open>An exception of foreign code leaves the manager as it is.\<close>

definition raised :: "py_exn + 'a \<Rightarrow> exn + 'a" where
  "raised r = (case r of Inl e \<Rightarrow> Inl (Raised e) | Inr x \<Rightarrow> Inr x)"

text \<open>
  Modelled from the spec: \<^verbatim>\<open>utils.perm_to_403\<close> is not among the sources. A permission
  failure of the call inside the block becomes a 403; every other failure propagates
  unchanged.
\<close>

definition perm_to_403 :: "string \<Rightarrow> py_exn + 'a \<Rightarrow> exn + 'a" where
  "perm_to_403 path r =
     (case r of
        Inl PermissionError \<Rightarrow> Inl (HTTPError 403 (Permission_denied path))
      | Inl e \<Rightarrow> Inl (Raised e)
      | Inr x \<Rightarrow> Inr x)"

text \<open>A list comprehension whose element expression can raise: the first exception ends it.\<close>

fun comprehension :: "('a \<Rightarrow> exn + 'b) \<Rightarrow> 'a list \<Rightarrow> exn + 'b list" where
  "comprehension f [] = Inr []"
| "comprehension f (x # xs) =
     (case f x of
        Inl e \<Rightarrow> Inl e
      | Inr y \<Rightarrow> (case comprehension f xs of Inl e \<Rightarrow> Inl e | Inr ys \<Rightarrow> Inr (y # ys)))"

section \<open>The manager's methods\<close>

definition is_file :: "'s manager \<Rightarrow> 's \<Rightarrow> string \<Rightarrow> exn + bool" where
  "is_file self s hdfs_path =
     (case fs_get_file_info (fs self) s hdfs_path of
        Inl e \<Rightarrow> Inl (Raised e)
      | Inr info \<Rightarrow> Inr (info_type info = File))"

definition is_dir :: "'s manager \<Rightarrow> 's \<Rightarrow> string \<Rightarrow> exn + bool" where
  "is_dir self s hdfs_path =
     (case fs_get_file_info (fs self) s hdfs_path of
        Inl e \<Rightarrow> Inl (Raised e)
      | Inr info \<Rightarrow> Inr (info_type info = Directory))"

definition path_exist :: "'s manager \<Rightarrow> 's \<Rightarrow> string \<Rightarrow> exn + bool" where
  "path_exist self s hdfs_path =
     (case fs_get_file_info (fs self) s hdfs_path of
        Inl e \<Rightarrow> Inl (Raised e)
      | Inr info \<Rightarrow> Inr (info_type info \<noteq> NotFound))"

definition list_dir :: "'s manager \<Rightarrow> 's \<Rightarrow> string \<Rightarrow> py_exn + FileInfo list" where
  "list_dir self s hdfs_path = fs_list (fs self) s hdfs_path False"

definition infer_type :: "'s manager \<Rightarrow> 's \<Rightarrow> string \<Rightarrow> exn + string" where
  "infer_type self s path =
     (if endswith path ''.ipynb'' then Inr ''notebook''
      else (case is_dir self s path of
              Inl e \<Rightarrow> Inl e
            | Inr d \<Rightarrow> if d then Inr ''directory'' else Inr ''file''))"

text \<open>
  \<^verbatim>\<open>to_fs_path(path, get_prefix_from_fs_path(path, self.root_dir, self.shared_dir))\<close>,
  the first line of every public method.
\<close>

definition hdfs_path_of :: "'s manager \<Rightarrow> string \<Rightarrow> string" where
  "hdfs_path_of self path =
     to_fs_path (utils self) path
       (get_prefix_from_fs_path (utils self) path (root_dir self) (shared_dir self))"

text \<open>
  \<^verbatim>\<open>is_hidden(hdfs_path, get_prefix_from_hdfs_path(hdfs_path, self.root_dir, self.shared_dir))\<close>.
\<close>

definition hidden_hdfs_path :: "'s manager \<Rightarrow> string \<Rightarrow> exn + bool" where
  "hidden_hdfs_path self hdfs_path =
     (case get_prefix_from_hdfs_path (utils self) hdfs_path (root_dir self) (shared_dir self) of
        Inl e \<Rightarrow> Inl (Raised e)
      | Inr prefix \<Rightarrow> raised (utils_is_hidden (utils self) hdfs_path prefix))"

definition is_hidden :: "'s manager \<Rightarrow> string \<Rightarrow> exn + bool" where
  "is_hidden self path = hidden_hdfs_path self (hdfs_path_of self path)"

definition file_exists :: "'s manager \<Rightarrow> 's \<Rightarrow> string \<Rightarrow> exn + bool" where
  "file_exists self s path = is_file self s (hdfs_path_of self path)"

definition dir_exists :: "'s manager \<Rightarrow> 's \<Rightarrow> string \<Rightarrow> exn + bool" where
  "dir_exists self s path = is_dir self s (hdfs_path_of self path)"

definition exists :: "'s manager \<Rightarrow> 's \<Rightarrow> string \<Rightarrow> exn + bool" where
  "exists self s path = path_exist self s (hdfs_path_of self path)"

definition info_and_check_kind ::
  "'s manager \<Rightarrow> 's \<Rightarrow> string \<Rightarrow> string \<Rightarrow> FileType \<Rightarrow> exn + FileInfo" where
  "info_and_check_kind self s path hdfs_path kind =
     (case fs_get_file_info (fs self) s hdfs_path of
        Inl e \<Rightarrow> Inl (Raised e)
      | Inr info \<Rightarrow>
          if info_type info = NotFound then Inl (HTTPError 404 (Does_not_exist kind path))
          else if info_type info \<noteq> kind then Inl (HTTPError 400 (Is_not_a path kind))
          else Inr info)"

text \<open>
  \<^verbatim>\<open>to_api_path(hdfs_path, get_prefix_from_hdfs_path(hdfs_path, self.root_dir, self.shared_dir))\<close>.
\<close>

definition api_path_of :: "'s manager \<Rightarrow> string \<Rightarrow> exn + string" where
  "api_path_of self hdfs_path =
     (case get_prefix_from_hdfs_path (utils self) hdfs_path (root_dir self) (shared_dir self) of
        Inl e \<Rightarrow> Inl (Raised e)
      | Inr prefix \<Rightarrow> raised (to_api_path (utils self) hdfs_path prefix))"

definition model_from_info :: "'s manager \<Rightarrow> FileInfo \<Rightarrow> string option \<Rightarrow> exn + model" where
  "model_from_info self info type =
     (let hdfs_path = info_path info;
          timestamp = info_mtime info
      in case api_path_of self hdfs_path of
           Inl e \<Rightarrow> Inl e
         | Inr path \<Rightarrow>
             let name = rsplit_last path;
                 type = (case type of
                           None \<Rightarrow>
                             if info_type info = Directory then ''directory''
                             else if endswith path ''.ipynb'' then ''notebook''
                             else ''file''
                         | Some t \<Rightarrow> t);
                 mimetype = (if type = ''file'' then guess_type (stdlib self) path else None);
                 size = (if type \<noteq> ''directory'' then info_size info else None)
             in Inr (Model name path timestamp timestamp type size mimetype
                       ContentNone None True None))"

text \<open>Assignments to keys of a model dictionary.\<close>

fun set_content :: "content \<Rightarrow> model \<Rightarrow> model" where
  "set_content c (Model n p lm cr t sz mt _ f w msg) = Model n p lm cr t sz mt c f w msg"

fun set_format :: "string option \<Rightarrow> model \<Rightarrow> model" where
  "set_format f (Model n p lm cr t sz mt c _ w msg) = Model n p lm cr t sz mt c f w msg"

fun set_mimetype :: "string option \<Rightarrow> model \<Rightarrow> model" where
  "set_mimetype mt (Model n p lm cr t sz _ c f w msg) = Model n p lm cr t sz mt c f w msg"

fun set_message :: "json option \<Rightarrow> model \<Rightarrow> model" where
  "set_message msg (Model n p lm cr t sz mt c f w _) = Model n p lm cr t sz mt c f w msg"

definition dir_model :: "'s manager \<Rightarrow> 's \<Rightarrow> string \<Rightarrow> string \<Rightarrow> bool \<Rightarrow> exn + model" where
  "dir_model self s path hdfs_path content =
     (case info_and_check_kind self s path hdfs_path Directory of
        Inl e \<Rightarrow> Inl e
      | Inr info \<Rightarrow>
          (case model_from_info self info (Some ''directory'') of
             Inl e \<Rightarrow> Inl e
           | Inr model \<Rightarrow>
               if content then
                 (case perm_to_403 path (list_dir self s hdfs_path) of
                    Inl e \<Rightarrow> Inl e
                  | Inr records \<Rightarrow>
                      (case comprehension (\<lambda>i. model_from_info self i None) records of
                         Inl e \<Rightarrow> Inl e
                       | Inr contents \<Rightarrow>
                           Inr (set_format (Some ''json'')
                                  (set_content
                                     (ContentList
                                        (filter
                                           (\<lambda>c. should_list self (model_name c) \<and>
                                                \<not> startswith (model_name c) ''.'')
                                           contents))
                                     model))))
               else Inr model))"

definition read_file ::
  "'s manager \<Rightarrow> 's \<Rightarrow> string \<Rightarrow> string \<Rightarrow> string option \<Rightarrow> exn + string \<times> string" where
  "read_file self s path hdfs_path format =
     (case is_file self s hdfs_path of
        Inl e \<Rightarrow> Inl e
      | Inr f \<Rightarrow>
          if \<not> f then Inl (HTTPError 400 (Cannot_read_non_file path))
          else
            (case perm_to_403 path (fs_open_input_stream (fs self) s hdfs_path) of
               Inl e \<Rightarrow> Inl e
             | Inr bcontent \<Rightarrow>
                 if format = None then
                   (case decode_utf8 (stdlib self) bcontent of
                      Some text \<Rightarrow> Inr (text, ''text'')
                    | None \<Rightarrow> Inr (encodebytes (stdlib self) bcontent, ''base64''))
                 else if format = Some ''text'' then
                   (case decode_utf8 (stdlib self) bcontent of
                      Some text \<Rightarrow> Inr (text, ''text'')
                    | None \<Rightarrow> Inl (HTTPError 400 (Is_not_UTF8_encoded path)))
                 else Inr (encodebytes (stdlib self) bcontent, ''base64'')))"

text \<open>
  The dictionary \<^verbatim>\<open>{'text': 'text/plain', 'base64': 'application/octet-stream'}\<close>
  indexed by the format.
\<close>

definition default_mimetype :: "string \<Rightarrow> exn + string" where
  "default_mimetype format =
     (if format = ''text'' then Inr ''text/plain''
      else if format = ''base64'' then Inr ''application/octet-stream''
      else Inl (Raised (KeyError format)))"

definition file_model ::
  "'s manager \<Rightarrow> 's \<Rightarrow> string \<Rightarrow> string \<Rightarrow> bool \<Rightarrow> string option \<Rightarrow> exn + model" where
  "file_model self s path hdfs_path content format =
     (case info_and_check_kind self s path hdfs_path File of
        Inl e \<Rightarrow> Inl e
      | Inr info \<Rightarrow>
          (case model_from_info self info (Some ''file'') of
             Inl e \<Rightarrow> Inl e
           | Inr model \<Rightarrow>
               if content then
                 (case read_file self s path hdfs_path format of
                    Inl e \<Rightarrow> Inl e
                  | Inr (content, format) \<Rightarrow>
                      (case (if model_mimetype model = None
                             then (case default_mimetype format of
                                     Inl e \<Rightarrow> Inl e
                                   | Inr mt \<Rightarrow> Inr (set_mimetype (Some mt) model))
                             else Inr model) of
                         Inl e \<Rightarrow> Inl e
                       | Inr model \<Rightarrow>
                           Inr (set_format (Some format)
                                  (set_content (ContentText content) model))))
               else Inr model))"

definition read_notebook :: "'s manager \<Rightarrow> 's \<Rightarrow> string \<Rightarrow> string \<Rightarrow> exn + json" where
  "read_notebook self s path hdfs_path =
     (case perm_to_403 path (fs_open_input_stream (fs self) s hdfs_path) of
        Inl e \<Rightarrow> Inl e
      | Inr content \<Rightarrow>
          (case decode_utf8 (stdlib self) content of
             None \<Rightarrow>
               Inl (HTTPError 400 (Unreadable_Notebook path (OtherError ''UnicodeDecodeError'')))
           | Some text \<Rightarrow>
               (case nb_reads (notebooks self) text of
                  Inl e \<Rightarrow> Inl (HTTPError 400 (Unreadable_Notebook path e))
                | Inr nb \<Rightarrow> Inr nb)))"

definition notebook_model ::
  "'s manager \<Rightarrow> 's \<Rightarrow> string \<Rightarrow> string \<Rightarrow> bool \<Rightarrow> exn + model" where
  "notebook_model self s path hdfs_path content =
     (case info_and_check_kind self s path hdfs_path File of
        Inl e \<Rightarrow> Inl e
      | Inr info \<Rightarrow>
          (case model_from_info self info (Some ''notebook'') of
             Inl e \<Rightarrow> Inl e
           | Inr model \<Rightarrow>
               if content then
                 (case read_notebook self s path hdfs_path of
                    Inl e \<Rightarrow> Inl e
                  | Inr contents \<Rightarrow>
                      (case mark_trusted_cells (notebooks self) contents path of
                         Inl e \<Rightarrow> Inl (Raised e)
                       | Inr contents \<Rightarrow>
                           (case validate_notebook_model (notebooks self) contents of
                              Inl e \<Rightarrow> Inl (Raised e)
                            | Inr msg \<Rightarrow>
                                let model = set_format (Some ''json'')
                                              (set_content (ContentNotebook contents) model)
                                in Inr (case msg of
                                          None \<Rightarrow> model
                                        | Some m \<Rightarrow> set_message (Some m) model))))
               else Inr model))"

text \<open>The lines of \<^verbatim>\<open>get\<close> after its two guards: the dispatch on the type.\<close>

definition get_dispatch ::
  "'s manager \<Rightarrow> 's \<Rightarrow> string \<Rightarrow> string \<Rightarrow> bool \<Rightarrow> string option \<Rightarrow> string option \<Rightarrow>
   exn + model" where
  "get_dispatch self s path hdfs_path content type format =
     (case (case type of None \<Rightarrow> infer_type self s hdfs_path | Some t \<Rightarrow> Inr t) of
        Inl e \<Rightarrow> Inl e
      | Inr type \<Rightarrow>
          if type = ''directory'' then dir_model self s path hdfs_path content
          else if type = ''notebook'' then notebook_model self s path hdfs_path content
          else file_model self s path hdfs_path content format)"

text \<open>
  \<^verbatim>\<open>not self.allow_hidden and is_hidden(hdfs_path, ...)\<close>: the right operand is
  evaluated only when hidden entries are not allowed.
\<close>

definition refuses_hidden :: "'s manager \<Rightarrow> string \<Rightarrow> exn + bool" where
  "refuses_hidden self hdfs_path =
     (if \<not> allow_hidden self then hidden_hdfs_path self hdfs_path else Inr False)"

definition get ::
  "'s manager \<Rightarrow> 's \<Rightarrow> string \<Rightarrow> bool \<Rightarrow> string option \<Rightarrow> string option \<Rightarrow> exn + model" where
  "get self s path content type format =
     (let hdfs_path = hdfs_path_of self path
      in case path_exist self s hdfs_path of
           Inl e \<Rightarrow> Inl e
         | Inr ex \<Rightarrow>
             if \<not> ex then Inl (HTTPError 404 (No_such_file_or_directory path))
             else
               (case refuses_hidden self hdfs_path of
                  Inl e \<Rightarrow> Inl e
                | Inr h \<Rightarrow>
                    if h then Inl (HTTPError 404 (No_such_file_or_directory path))
                    else get_dispatch self s path hdfs_path content type format))"

text \<open>
  The model dictionary \<^verbatim>\<open>save\<close> receives: a key that is absent maps to \<open>None\<close>.
\<close>

type_synonym model_dict = "string \<rightharpoonup> json"

definition save_directory :: "'s manager \<Rightarrow> 's \<Rightarrow> string \<Rightarrow> string \<Rightarrow> (exn + unit) \<times> 's" where
  "save_directory self s path hdfs_path =
     (case refuses_hidden self hdfs_path of
        Inl e \<Rightarrow> (Inl e, s)
      | Inr h \<Rightarrow>
          if h then (Inl (HTTPError 400 (Cannot_create_hidden_directory path)), s)
          else
            (case exists self s hdfs_path of
               Inl e \<Rightarrow> (Inl e, s)
             | Inr ex \<Rightarrow>
                 if \<not> ex then
                   (case fs_create_dir (fs self) s hdfs_path of
                      (r, s') \<Rightarrow> (perm_to_403 path r, s'))
                 else
                   (case is_dir self s hdfs_path of
                      Inl e \<Rightarrow> (Inl e, s)
                    | Inr d \<Rightarrow>
                        if \<not> d then (Inl (HTTPError 400 (Not_a_directory path)), s)
                        else (Inr (), s))))"

text \<open>
  \<^verbatim>\<open>format not in {'text', 'base64'}\<close>: looking a list or a dictionary up in a set
  raises \<^verbatim>\<open>TypeError\<close>.
\<close>

definition format_not_in :: "json \<Rightarrow> py_exn + bool" where
  "format_not_in format =
     (case format of
        JArray _ \<Rightarrow> Inl (OtherError ''TypeError'')
      | JObject _ \<Rightarrow> Inl (OtherError ''TypeError'')
      | _ \<Rightarrow> Inr (format \<noteq> JString ''text'' \<and> format \<noteq> JString ''base64''))"

text \<open>
  The \<^verbatim>\<open>try\<close> block of \<^verbatim>\<open>_save_file\<close>: \<^verbatim>\<open>content.encode\<close> exists only on a string.
\<close>

definition encode_content :: "'s manager \<Rightarrow> json \<Rightarrow> json \<Rightarrow> py_exn + bytes" where
  "encode_content self format content =
     (case content of
        JString text \<Rightarrow>
          if format = JString ''text'' then encode_utf8 (stdlib self) text
          else decodebytes (stdlib self) text
      | _ \<Rightarrow> Inl (OtherError ''AttributeError''))"

definition save_file ::
  "'s manager \<Rightarrow> 's \<Rightarrow> string \<Rightarrow> string \<Rightarrow> model_dict \<Rightarrow> (exn + unit) \<times> 's" where
  "save_file self s path hdfs_path model =
     (case model ''format'' of
        None \<Rightarrow> (Inl (Raised (KeyError ''format'')), s)
      | Some format \<Rightarrow>
          (case model ''content'' of
             None \<Rightarrow> (Inl (Raised (KeyError ''content'')), s)
           | Some content \<Rightarrow>
               (case format_not_in format of
                  Inl e \<Rightarrow> (Inl (Raised e), s)
                | Inr bad \<Rightarrow>
                    if bad then (Inl (HTTPError 400 Must_specify_format), s)
                    else
                      (case encode_content self format content of
                         Inl e \<Rightarrow> (Inl (HTTPError 400 (Encoding_error_saving path e)), s)
                       | Inr bcontent \<Rightarrow>
                           (case fs_open_output_stream (fs self) s hdfs_path bcontent of
                              (r, s') \<Rightarrow> (perm_to_403 path r, s'))))))"

text \<open>\<^verbatim>\<open>model.get('message')\<close>.\<close>

definition get_message :: "model_dict \<Rightarrow> json option" where
  "get_message model =
     (case model ''message'' of None \<Rightarrow> None | Some JNull \<Rightarrow> None | Some m \<Rightarrow> Some m)"

definition save_notebook ::
  "'s manager \<Rightarrow> 's \<Rightarrow> string \<Rightarrow> string \<Rightarrow> model_dict \<Rightarrow> (exn + json option) \<times> 's" where
  "save_notebook self s path hdfs_path model =
     (case model ''content'' of
        None \<Rightarrow> (Inl (Raised (KeyError ''content'')), s)
      | Some c \<Rightarrow>
          (case nb_from_dict (notebooks self) c of
             Inl e \<Rightarrow> (Inl (Raised e), s)
           | Inr nb \<Rightarrow>
               (case check_and_sign (notebooks self) nb path of
                  Inl e \<Rightarrow> (Inl (Raised e), s)
                | Inr _ \<Rightarrow>
                    (case nb_writes (notebooks self) nb of
                       Inl e \<Rightarrow> (Inl (Raised e), s)
                     | Inr content \<Rightarrow>
                         (case encode_utf8 (stdlib self) content of
                            Inl e \<Rightarrow> (Inl (Raised e), s)
                          | Inr bcontent \<Rightarrow>
                              (case fs_open_output_stream (fs self) s hdfs_path bcontent of
                                 (r, s') \<Rightarrow>
                                   (case perm_to_403 path r of
                                      Inl e \<Rightarrow> (Inl e, s')
                                    | Inr _ \<Rightarrow>
                                        (case validate_notebook_model (notebooks self) c of
                                           Inl e \<Rightarrow> (Inl (Raised e), s')
                                         | Inr None \<Rightarrow> (Inr (get_message model), s')
                                         | Inr (Some m) \<Rightarrow>
                                             (Inr (get_message (model(''message'' \<mapsto> m))), s')))))))))"

text \<open>
  The end of \<^verbatim>\<open>save\<close>: the model is read back without content, and the message of the
  notebook validation is stored in it.
\<close>

definition save_reread ::
  "'s manager \<Rightarrow> 's \<Rightarrow> string \<Rightarrow> string \<Rightarrow> json option \<Rightarrow> exn + model" where
  "save_reread self s path typ message =
     (case get self s path False (Some typ) None of
        Inl e \<Rightarrow> Inl e
      | Inr model \<Rightarrow>
          Inr (case message of None \<Rightarrow> model | Some m \<Rightarrow> set_message (Some m) model))"

definition save :: "'s manager \<Rightarrow> 's \<Rightarrow> model_dict \<Rightarrow> string \<Rightarrow> (exn + model) \<times> 's" where
  "save self s model path =
     (case model ''type'' of
        None \<Rightarrow> (Inl (HTTPError 400 No_file_type_provided), s)
      | Some typ \<Rightarrow>
          if model ''content'' = None \<and> typ \<noteq> JString ''directory''
          then (Inl (HTTPError 400 No_file_content_provided), s)
          else
            let hdfs_path = hdfs_path_of self path
            in if typ = JString ''notebook'' then
                 (case save_notebook self s path hdfs_path model of
                    (Inl e, s') \<Rightarrow> (Inl e, s')
                  | (Inr message, s') \<Rightarrow> (save_reread self s' path ''notebook'' message, s'))
               else if typ = JString ''file'' then
                 (case save_file self s path hdfs_path model of
                    (Inl e, s') \<Rightarrow> (Inl e, s')
                  | (Inr _, s') \<Rightarrow> (save_reread self s' path ''file'' None, s'))
               else if typ = JString ''directory'' then
                 (case save_directory self s path hdfs_path of
                    (Inl e, s') \<Rightarrow> (Inl e, s')
                  | (Inr _, s') \<Rightarrow> (save_reread self s' path ''directory'' None, s'))
               else (Inl (HTTPError 400 (Unhandled_contents_type typ)), s))"

definition is_dir_empty :: "'s manager \<Rightarrow> 's \<Rightarrow> string \<Rightarrow> string \<Rightarrow> exn + bool" where
  "is_dir_empty self s path hdfs_path =
     (case perm_to_403 path (list_dir self s hdfs_path) of
        Inl e \<Rightarrow> Inl e
      | Inr files \<Rightarrow>
          if files = [] then Inr True
          else
            let cp_dir = checkpoint_dir self;
                files = set (map (\<lambda>f. Some (rsplit_last (info_path f))) files) - {cp_dir}
            in Inr (files = {}))"

definition delete_file :: "'s manager \<Rightarrow> 's \<Rightarrow> string \<Rightarrow> (exn + unit) \<times> 's" where
  "delete_file self s path =
     (let hdfs_path = hdfs_path_of self path
      in case path_exist self s hdfs_path of
           Inl e \<Rightarrow> (Inl e, s)
         | Inr ex \<Rightarrow>
             if \<not> ex then (Inl (HTTPError 404 (File_or_directory_does_not_exist path)), s)
             else
               (case is_dir self s hdfs_path of
                  Inl e \<Rightarrow> (Inl e, s)
                | Inr d \<Rightarrow>
                    if d then
                      (case is_dir_empty self s path hdfs_path of
                         Inl e \<Rightarrow> (Inl e, s)
                       | Inr no_files \<Rightarrow>
                           if \<not> no_files then (Inl (HTTPError 400 (Directory_not_empty path)), s)
                           else
                             (case fs_delete_dir (fs self) s hdfs_path of
                                (r, s') \<Rightarrow> (perm_to_403 path r, s')))
                    else
                      (case fs_delete_file (fs self) s hdfs_path of
                         (r, s') \<Rightarrow> (perm_to_403 path r, s'))))"

definition rename_file :: "'s manager \<Rightarrow> 's \<Rightarrow> string \<Rightarrow> string \<Rightarrow> (exn + unit) \<times> 's" where
  "rename_file self s old_path new_path =
     (if old_path = new_path then (Inr (), s)
      else
        let old_hdfs_path = hdfs_path_of self old_path;
            new_hdfs_path = hdfs_path_of self new_path
        in case path_exist self s new_hdfs_path of
             Inl e \<Rightarrow> (Inl e, s)
           | Inr ex \<Rightarrow>
               if ex then (Inl (HTTPError 409 (File_already_exists new_path)), s)
               else
                 (case fs_move (fs self) s old_hdfs_path new_hdfs_path of
                    (r, s') \<Rightarrow>
                      (case perm_to_403 old_path r of
                         Inl (HTTPError code msg) \<Rightarrow> (Inl (HTTPError code msg), s')
                       | Inl (Raised e) \<Rightarrow>
                           (Inl (HTTPError 500 (Unknown_error_renaming_file old_path e)), s')
                       | Inr _ \<Rightarrow> (Inr (), s'))))"

section \<open>Predicates of the properties\<close>

text \<open>The status code of an exception, and an outcome that is an \<^verbatim>\<open>HTTPError\<close> with a given one.\<close>

definition http_status :: "exn \<Rightarrow> nat option" where
  "http_status e = (case e of HTTPError c _ \<Rightarrow> Some c | Raised _ \<Rightarrow> None)"

definition fails_with :: "nat \<Rightarrow> exn + 'a \<Rightarrow> bool" where
  "fails_with code r = (case r of Inl e \<Rightarrow> http_status e = Some code | Inr _ \<Rightarrow> False)"

text \<open>
  In a model and in every model of its listing, \<^verbatim>\<open>'created'\<close> is \<^verbatim>\<open>'last_modified'\<close>.
\<close>

fun created_is_last_modified :: "model \<Rightarrow> bool"
  and created_is_last_modified_content :: "content \<Rightarrow> bool" where
  "created_is_last_modified (Model n p lm cr t sz mt c f w msg) =
     (cr = lm \<and> created_is_last_modified_content c)"
| "created_is_last_modified_content ContentNone = True"
| "created_is_last_modified_content (ContentText _) = True"
| "created_is_last_modified_content (ContentList ms) = list_all created_is_last_modified ms"
| "created_is_last_modified_content (ContentNotebook _) = True"

text \<open>The models listed in the content of a directory model.\<close>

definition listing :: "model \<Rightarrow> model list" where
  "listing m = (case model_content m of ContentList ms \<Rightarrow> ms | _ \<Rightarrow> [])"

text \<open>Both timestamps of the model are the modification time of the metadata.\<close>

definition stamped :: "FileInfo \<Rightarrow> model \<Rightarrow> bool" where
  "stamped info m \<longleftrightarrow>
     model_created m = info_mtime info \<and> model_last_modified m = info_mtime info \<and>
     created_is_last_modified_content (model_content m)"

section \<open>A concrete instance\<close>

text \<open>
  The theorems below hold for every file system client, every \<^verbatim>\<open>utils\<close> module and
  every library. To evaluate the manager on concrete inputs, this section gives one
  instance of each: a file system held in memory, the path functions as the spec
  describes them, codecs for ASCII data, and a notebook library that knows one document.
\<close>

datatype node = FileNode bytes int | DirNode int

type_synonym memfs = "(string \<times> node) list"

definition mem_info :: "string \<Rightarrow> node option \<Rightarrow> FileInfo" where
  "mem_info p n =
     (case n of
        None \<Rightarrow> \<lparr>info_path = p, info_type = NotFound, info_size = None, info_mtime = None\<rparr>
      | Some (FileNode b t) \<Rightarrow>
          \<lparr>info_path = p, info_type = File, info_size = Some (length b), info_mtime = Some t\<rparr>
      | Some (DirNode t) \<Rightarrow>
          \<lparr>info_path = p, info_type = Directory, info_size = None, info_mtime = Some t\<rparr>)"

definition below :: "string \<Rightarrow> string \<Rightarrow> bool" where
  "below p q = (startswith q (p @ ''/'') \<and> length p + 1 < length q)"

definition child_of :: "string \<Rightarrow> string \<Rightarrow> bool" where
  "child_of p q = (below p q \<and> CHR ''/'' \<notin> set (drop (length p + 1) q))"

definition mem_get_file_info :: "memfs \<Rightarrow> string \<Rightarrow> py_exn + FileInfo" where
  "mem_get_file_info s p = Inr (mem_info p (map_of s p))"

definition mem_list :: "memfs \<Rightarrow> string \<Rightarrow> bool \<Rightarrow> py_exn + FileInfo list" where
  "mem_list s p recursive =
     (case map_of s p of
        Some (DirNode _) \<Rightarrow>
          Inr (map (\<lambda>(q, n). mem_info q (Some n))
                 (filter (\<lambda>(q, n). if recursive then below p q else child_of p q) s))
      | _ \<Rightarrow> Inl (OtherError ''FileNotFoundError''))"

definition mem_open_input_stream :: "memfs \<Rightarrow> string \<Rightarrow> py_exn + bytes" where
  "mem_open_input_stream s p =
     (case map_of s p of
        Some (FileNode b _) \<Rightarrow> Inr b
      | _ \<Rightarrow> Inl (OtherError ''FileNotFoundError''))"

definition mem_open_output_stream :: "memfs \<Rightarrow> string \<Rightarrow> bytes \<Rightarrow> (py_exn + unit) \<times> memfs" where
  "mem_open_output_stream s p b =
     (case map_of s p of
        Some (DirNode _) \<Rightarrow> (Inl (OtherError ''IsADirectoryError''), s)
      | _ \<Rightarrow> (Inr (), (p, FileNode b 0) # filter (\<lambda>(q, n). q \<noteq> p) s))"

definition mem_create_dir :: "memfs \<Rightarrow> string \<Rightarrow> (py_exn + unit) \<times> memfs" where
  "mem_create_dir s p =
     (case map_of s p of
        None \<Rightarrow> (Inr (), s @ [(p, DirNode 0)])
      | Some (DirNode _) \<Rightarrow> (Inr (), s)
      | Some (FileNode _ _) \<Rightarrow> (Inl (OtherError ''FileExistsError''), s))"

definition mem_delete_dir :: "memfs \<Rightarrow> string \<Rightarrow> (py_exn + unit) \<times> memfs" where
  "mem_delete_dir s p =
     (case map_of s p of
        Some (DirNode _) \<Rightarrow> (Inr (), filter (\<lambda>(q, n). q \<noteq> p \<and> \<not> below p q) s)
      | _ \<Rightarrow> (Inl (OtherError ''FileNotFoundError''), s))"

definition mem_delete_file :: "memfs \<Rightarrow> string \<Rightarrow> (py_exn + unit) \<times> memfs" where
  "mem_delete_file s p =
     (case map_of s p of
        Some (FileNode _ _) \<Rightarrow> (Inr (), filter (\<lambda>(q, n). q \<noteq> p) s)
      | _ \<Rightarrow> (Inl (OtherError ''FileNotFoundError''), s))"

definition mem_move :: "memfs \<Rightarrow> string \<Rightarrow> string \<Rightarrow> (py_exn + unit) \<times> memfs" where
  "mem_move s a b =
     (case map_of s a of
        None \<Rightarrow> (Inl (OtherError ''FileNotFoundError''), s)
      | Some _ \<Rightarrow>
          (Inr (),
           map (\<lambda>(q, n). if q = a then (b, n)
                         else if below a q then (b @ drop (length a) q, n)
                         else (q, n)) s))"

definition mem_filesystem :: "memfs filesystem" where
  "mem_filesystem =
     \<lparr>fs_get_file_info = mem_get_file_info,
      fs_list = mem_list,
      fs_open_input_stream = mem_open_input_stream,
      fs_open_output_stream = mem_open_output_stream,
      fs_create_dir = mem_create_dir,
      fs_delete_dir = mem_delete_dir,
      fs_delete_file = mem_delete_file,
      fs_move = mem_move\<rparr>"

text \<open>The same file system mounted read-only: every \<^verbatim>\<open>move\<close> is denied.\<close>

definition readonly_filesystem :: "memfs filesystem" where
  "readonly_filesystem = mem_filesystem\<lparr>fs_move := \<lambda>s a b. (Inl PermissionError, s)\<rparr>"

text \<open>
  Modelled from the spec: \<^verbatim>\<open>hdfscm/utils.py\<close> (\<^verbatim>\<open>to_fs_path\<close>, \<^verbatim>\<open>to_api_path\<close>,
  \<^verbatim>\<open>is_hidden\<close>, \<^verbatim>\<open>get_prefix_from_fs_path\<close>, \<^verbatim>\<open>get_prefix_from_hdfs_path\<close>) is not among
  the sources. A logical path whose first segment is \<^verbatim>\<open>shared\<close> belongs to the shared
  root, every other one to the private root. The physical path is the root directory
  followed by the segments of the logical path: \<^verbatim>\<open>to_fs_path\<close> is given the path and the
  root directory only, and \<^verbatim>\<open>to_api_path\<close> strips the root directory, so the remainder
  that follows the root is the logical path itself. The logical path of a physical one
  is what follows the root directory that is its prefix (the longer one when both are),
  and there is none when neither is. Slashes only separate segments: the root is the
  empty string or \<^verbatim>\<open>/\<close> alike, and the logical path of a physical one is written as
  the manager's callers write them (the tests delete an entry by its name and by the
  \<^verbatim>\<open>'path'\<close> of its model), its segments separated by single slashes with none before
  the first. A
  path is hidden when a segment below its root starts with a dot.
\<close>

fun split_path :: "string \<Rightarrow> string \<Rightarrow> string list" where
  "split_path acc [] = [rev acc]"
| "split_path acc (c # cs) =
     (if c = CHR ''/'' then rev acc # split_path [] cs else split_path (c # acc) cs)"

definition segments :: "string \<Rightarrow> string list" where
  "segments path = filter (\<lambda>seg. seg \<noteq> []) (split_path [] path)"

fun join_path :: "string list \<Rightarrow> string" where
  "join_path [] = []"
| "join_path [seg] = seg"
| "join_path (seg # segs) = seg @ ''/'' @ join_path segs"

definition spec_to_fs_path :: "string \<Rightarrow> string \<Rightarrow> string" where
  "spec_to_fs_path path prefix = join_path (prefix # segments path)"

definition spec_get_prefix_from_fs_path :: "string \<Rightarrow> string \<Rightarrow> string \<Rightarrow> string" where
  "spec_get_prefix_from_fs_path path root shared =
     (case segments path of
        seg # _ \<Rightarrow> if seg = ''shared'' then shared else root
      | [] \<Rightarrow> root)"

definition spec_get_prefix_from_hdfs_path :: "string \<Rightarrow> string \<Rightarrow> string \<Rightarrow> py_exn + string" where
  "spec_get_prefix_from_hdfs_path hdfs_path root shared =
     (if startswith hdfs_path root \<and> startswith hdfs_path shared
      then Inr (if length root < length shared then shared else root)
      else if startswith hdfs_path shared then Inr shared
      else if startswith hdfs_path root then Inr root
      else Inl (OtherError ''ConfigurationError''))"

definition spec_to_api_path :: "string \<Rightarrow> string \<Rightarrow> py_exn + string" where
  "spec_to_api_path hdfs_path prefix =
     (if startswith hdfs_path prefix
      then Inr (join_path (segments (drop (length prefix) hdfs_path)))
      else Inl (OtherError ''ConfigurationError''))"

definition spec_is_hidden :: "string \<Rightarrow> string \<Rightarrow> py_exn + bool" where
  "spec_is_hidden hdfs_path prefix =
     (case spec_to_api_path hdfs_path prefix of
        Inl e \<Rightarrow> Inl e
      | Inr path \<Rightarrow> Inr (list_ex (\<lambda>seg. startswith seg ''.'') (segments path)))"

definition spec_utils :: utils where
  "spec_utils =
     \<lparr>to_fs_path = spec_to_fs_path,
      get_prefix_from_fs_path = spec_get_prefix_from_fs_path,
      get_prefix_from_hdfs_path = spec_get_prefix_from_hdfs_path,
      to_api_path = spec_to_api_path,
      utils_is_hidden = spec_is_hidden\<rparr>"




text \<open>
  Codecs for ASCII data. A byte from 0x80 on is refused by the decoder, as the UTF-8
  decoder refuses the lone byte 0xFF of the examples. The base64 encoder is the one of
  \<^verbatim>\<open>base64.encodebytes\<close>: lines of 57 bytes, each encoded and ended by a newline; the
  decoder accepts what the encoder writes for one line.
\<close>

definition ascii_decode :: "bytes \<Rightarrow> string option" where
  "ascii_decode b =
     (if list_all (\<lambda>w. unat w < 128) b then Some (map (\<lambda>w. char_of (unat w)) b) else None)"

definition ascii_encode :: "string \<Rightarrow> py_exn + bytes" where
  "ascii_encode s =
     (if list_all (\<lambda>c. (of_char c :: nat) < 128) s then Inr (map (\<lambda>c. of_nat (of_char c)) s)
      else Inl (OtherError ''UnicodeEncodeError''))"

definition b64_alphabet :: string where
  "b64_alphabet = ''ABCDEFGHIJKLMNOPQRSTUVWXYZabcdefghijklmnopqrstuvwxyz0123456789+/''"

fun b64_groups :: "nat list \<Rightarrow> string" where
  "b64_groups [] = []"
| "b64_groups [a] =
     [b64_alphabet ! (a div 4), b64_alphabet ! ((a mod 4) * 16), CHR ''='', CHR ''='']"
| "b64_groups [a, b] =
     [b64_alphabet ! (a div 4), b64_alphabet ! ((a mod 4) * 16 + b div 16),
      b64_alphabet ! ((b mod 16) * 4), CHR ''='']"
| "b64_groups (a # b # c # rest) =
     [b64_alphabet ! (a div 4), b64_alphabet ! ((a mod 4) * 16 + b div 16),
      b64_alphabet ! ((b mod 16) * 4 + c div 64), b64_alphabet ! (c mod 64)] @ b64_groups rest"

fun b64_lines :: "nat \<Rightarrow> nat list \<Rightarrow> string" where
  "b64_lines 0 b = []"
| "b64_lines (Suc n) b =
     (if b = [] then []
      else b64_groups (take 57 b) @ [CHR 0x0A] @ b64_lines n (drop 57 b))"

definition b64_encodebytes :: "bytes \<Rightarrow> string" where
  "b64_encodebytes b = b64_lines (length b) (map unat b)"

fun index_of :: "'a \<Rightarrow> 'a list \<Rightarrow> nat option" where
  "index_of x [] = None"
| "index_of x (y # ys) = (if x = y then Some 0 else map_option Suc (index_of x ys))"

fun b64_ungroup :: "string \<Rightarrow> nat list option" where
  "b64_ungroup [] = Some []"
| "b64_ungroup [c] = (if c = CHR 0x0A then Some [] else None)"
| "b64_ungroup (c1 # c2 # c3 # c4 # rest) =
     (case (index_of c1 b64_alphabet, index_of c2 b64_alphabet) of
        (Some i1, Some i2) \<Rightarrow>
          if c3 = CHR ''='' \<and> c4 = CHR ''='' \<and> (rest = [] \<or> rest = [CHR 0x0A])
          then Some [i1 * 4 + i2 div 16]
          else
            (case index_of c3 b64_alphabet of
               None \<Rightarrow> None
             | Some i3 \<Rightarrow>
                 if c4 = CHR ''='' \<and> (rest = [] \<or> rest = [CHR 0x0A])
                 then Some [i1 * 4 + i2 div 16, (i2 mod 16) * 16 + i3 div 4]
                 else
                   (case (index_of c4 b64_alphabet, b64_ungroup rest) of
                      (Some i4, Some bs) \<Rightarrow>
                        Some ([i1 * 4 + i2 div 16, (i2 mod 16) * 16 + i3 div 4,
                               (i3 mod 4) * 64 + i4] @ bs)
                    | _ \<Rightarrow> None))
      | _ \<Rightarrow> None)"
| "b64_ungroup _ = None"

definition b64_decodebytes :: "string \<Rightarrow> py_exn + bytes" where
  "b64_decodebytes s =
     (case b64_ungroup s of
        None \<Rightarrow> Inl (OtherError ''binascii.Error'')
      | Some b \<Rightarrow> Inr (map of_nat b))"

definition ascii_stdlib :: stdlib where
  "ascii_stdlib =
     \<lparr>decode_utf8 = ascii_decode,
      encodebytes = b64_encodebytes,
      encode_utf8 = ascii_encode,
      decodebytes = b64_decodebytes,
      guess_type = (\<lambda>path. if endswith path ''.txt'' then Some ''text/plain'' else None)\<rparr>"

text \<open>A notebook library whose only document is the empty object.\<close>

definition one_notebook :: notebooks where
  "one_notebook =
     \<lparr>nb_reads = (\<lambda>text. if text = ''{}'' then Inr (JObject [])
                           else Inl (OtherError ''NotJSONError'')),
      nb_from_dict = (\<lambda>d. Inr d),
      nb_writes = (\<lambda>nb. Inr ''{}''),
      mark_trusted_cells = (\<lambda>nb path. Inr nb),
      check_and_sign = (\<lambda>nb path. Inr ()),
      validate_notebook_model = (\<lambda>content. Inr None)\<rparr>"

text \<open>
  A manager serving \<^verbatim>\<open>/r\<close> as its private root and \<^verbatim>\<open>/sh\<close> as the shared one, with
  hidden entries not allowed and \<^verbatim>\<open>.checkpoints\<close> as the checkpoint directory.
\<close>

definition manager_on :: "memfs filesystem \<Rightarrow> memfs manager" where
  "manager_on client =
     \<lparr>root_dir = ''/r'',
      shared_dir = ''/sh'',
      allow_hidden = False,
      checkpoint_dir = Some ''.checkpoints'',
      should_list = (\<lambda>name. True),
      fs = client,
      utils = spec_utils,
      stdlib = ascii_stdlib,
      notebooks = one_notebook\<rparr>"

text \<open>
  A file system with a text file, a binary file, a directory that holds only its
  checkpoint directory, a directory that holds a file, and a directory whose name ends
  in \<^verbatim>\<open>.ipynb\<close>.
\<close>

definition disk :: memfs where
  "disk =
     [(''/r'', DirNode 1),
      (''/r/shared'', DirNode 1),
      (''/r/a.txt'', FileNode [0x68, 0x69] 2),
      (''/r/b.bin'', FileNode [0xFF] 3),
      (''/r/d'', DirNode 4),
      (''/r/d/.checkpoints'', DirNode 5),
      (''/r/e'', DirNode 6),
      (''/r/e/x.txt'', FileNode [0x78] 7),
      (''/r/n.ipynb'', DirNode 8)]"

section \<open>Properties\<close>

lemma http_status_simps [simp]:
  "http_status (HTTPError c m) = Some c"
  "http_status (Raised e) = None"
  by (simp_all add: http_status_def)

lemma fails_with_simps [simp]:
  "fails_with code (Inl e) = (http_status e = Some code)"
  "fails_with code (Inr x) = False"
  by (simp_all add: fails_with_def)

lemma perm_to_403_status:
  "perm_to_403 path r = Inl e \<Longrightarrow> http_status e = Some 403 \<or> http_status e = None"
  by (auto simp: perm_to_403_def split: sum.splits py_exn.splits)

lemma raised_status: "raised r = Inl e \<Longrightarrow> http_status e = None"
  by (auto simp: raised_def split: sum.splits)

lemma api_path_of_status: "api_path_of self hp = Inl e \<Longrightarrow> http_status e = None"
  by (auto simp: api_path_of_def split: sum.splits dest: raised_status)

lemma model_from_info_status: "model_from_info self i t = Inl e \<Longrightarrow> http_status e = None"
  by (auto simp: model_from_info_def Let_def split: sum.splits dest: api_path_of_status)

lemma comprehension_status:
  "(\<And>x e. f x = Inl e \<Longrightarrow> P e) \<Longrightarrow> comprehension f xs = Inl e \<Longrightarrow> P e"
  by (induction xs) (auto split: sum.splits)

lemma info_and_check_kind_status:
  "path_exist self s hp = Inr True \<Longrightarrow> info_and_check_kind self s p hp k = Inl e \<Longrightarrow>
     http_status e \<noteq> Some 404"
  by (auto simp: path_exist_def info_and_check_kind_def split: sum.splits if_splits)

lemma dir_model_status:
  assumes "path_exist self s hp = Inr True" and "dir_model self s p hp c = Inl e"
  shows "http_status e \<noteq> Some 404"
proof -
  have "comprehension (\<lambda>i. model_from_info self i None) xs = Inl e' \<Longrightarrow> http_status e' = None"
    for xs e'
    by (rule comprehension_status [where f = "\<lambda>i. model_from_info self i None"])
       (auto dest: model_from_info_status)
  with assms show ?thesis
    by (auto simp: dir_model_def split: sum.splits if_splits
        dest: info_and_check_kind_status model_from_info_status perm_to_403_status)
qed

lemma read_file_status:
  "read_file self s p hp f = Inl e \<Longrightarrow> http_status e \<noteq> Some 404"
  by (auto simp: read_file_def is_file_def split: sum.splits option.splits if_splits
      dest: perm_to_403_status)

lemma file_model_status:
  assumes "path_exist self s hp = Inr True" and "file_model self s p hp c f = Inl e"
  shows "http_status e \<noteq> Some 404"
  using assms
  by (auto simp: file_model_def default_mimetype_def split: sum.splits if_splits prod.splits
      dest: info_and_check_kind_status model_from_info_status read_file_status)

lemma read_notebook_status:
  "read_notebook self s p hp = Inl e \<Longrightarrow> http_status e \<noteq> Some 404"
  by (auto simp: read_notebook_def split: sum.splits option.splits dest: perm_to_403_status)

lemma notebook_model_status:
  assumes "path_exist self s hp = Inr True" and "notebook_model self s p hp c = Inl e"
  shows "http_status e \<noteq> Some 404"
  using assms
  by (auto simp: notebook_model_def Let_def split: sum.splits if_splits
      dest: info_and_check_kind_status model_from_info_status read_notebook_status)

lemma infer_type_status: "infer_type self s hp = Inl e \<Longrightarrow> http_status e = None"
  by (auto simp: infer_type_def is_dir_def split: sum.splits if_splits)

lemma get_dispatch_not_404:
  assumes "path_exist self s hp = Inr True"
  shows "\<not> fails_with 404 (get_dispatch self s p hp c t f)"
  using assms
  by (auto simp: get_dispatch_def fails_with_def split: sum.splits option.splits if_splits
      dest: dir_model_status file_model_status notebook_model_status infer_type_status)

lemma path_exist_not_404: "\<not> fails_with 404 (path_exist self s hp)"
  by (auto simp: path_exist_def split: sum.splits)

lemma refuses_hidden_not_404: "\<not> fails_with 404 (refuses_hidden self hp)"
  by (auto simp: refuses_hidden_def hidden_hdfs_path_def raised_def split: sum.splits)

lemma refuses_hidden_True:
  "refuses_hidden self hp = Inr True \<longleftrightarrow> \<not> allow_hidden self \<and> hidden_hdfs_path self hp = Inr True"
  by (auto simp: refuses_hidden_def)

text \<open>
  Claim C2. \<^verbatim>\<open>get\<close> fails with a 404 if and only if the physical path does not exist, or
  it exists, hidden entries are not allowed and the path is hidden. When the path exists
  and is not refused as hidden, \<^verbatim>\<open>get\<close> is the construction of the model for the explicit
  or inferred type.
\<close>

theorem get_not_found_iff:
  "(fails_with 404 (get self s path content type format) \<longleftrightarrow>
      path_exist self s (hdfs_path_of self path) = Inr False \<or>
      (path_exist self s (hdfs_path_of self path) = Inr True \<and> \<not> allow_hidden self \<and>
       hidden_hdfs_path self (hdfs_path_of self path) = Inr True)) \<and>
   (path_exist self s (hdfs_path_of self path) = Inr True \<longrightarrow>
    refuses_hidden self (hdfs_path_of self path) = Inr False \<longrightarrow>
      get self s path content type format =
        get_dispatch self s path (hdfs_path_of self path) content type format)"
proof -
  let ?hp = "hdfs_path_of self path"
  have not_exist: "fails_with 404 (get self s path content type format)"
    if "path_exist self s ?hp = Inr False"
    using that by (simp add: get_def)
  have hidden: "fails_with 404 (get self s path content type format)"
    if "path_exist self s ?hp = Inr True" "refuses_hidden self ?hp = Inr True"
    using that by (simp add: get_def)
  have dispatch: "get self s path content type format =
      get_dispatch self s path ?hp content type format"
    if "path_exist self s ?hp = Inr True" "refuses_hidden self ?hp = Inr False"
    using that by (simp add: get_def)
  have only_if: "path_exist self s ?hp = Inr False \<or>
      (path_exist self s ?hp = Inr True \<and> refuses_hidden self ?hp = Inr True)"
    if nf: "fails_with 404 (get self s path content type format)"
  proof (cases "path_exist self s ?hp")
    case (Inl e)
    with nf path_exist_not_404 [of self s ?hp] show ?thesis by (simp add: get_def)
  next
    case (Inr ex)
    show ?thesis
    proof (cases ex)
      case False
      with Inr show ?thesis by simp
    next
      case True
      with Inr have ex: "path_exist self s ?hp = Inr True" by simp
      show ?thesis
      proof (cases "refuses_hidden self ?hp")
        case (Inl e)
        with nf ex refuses_hidden_not_404 [of self ?hp] show ?thesis by (simp add: get_def)
      next
        case (Inr h)
        with nf ex get_dispatch_not_404 [OF ex, of path content type format]
        show ?thesis by (cases h) (simp_all add: get_def)
      qed
    qed
  qed
  show ?thesis
    using not_exist hidden dispatch only_if by (auto simp: refuses_hidden_True)
qed


text \<open>
  Claim C1. For a file whose bytes were read (\<^verbatim>\<open>_read_file\<close>): with no format requested,
  bytes that decode as UTF-8 are returned as that text with format \<^verbatim>\<open>'text'\<close>, and bytes
  that do not are returned base64-encoded with format \<^verbatim>\<open>'base64'\<close>; with format
  \<^verbatim>\<open>'text'\<close> requested, bytes that do not decode raise the 400 "is not UTF-8 encoded";
  with any other format requested, the read succeeds with the base64 encoding of the bytes.
\<close>

theorem read_file_policy:
  assumes "is_file self s hdfs_path = Inr True"
    and "fs_open_input_stream (fs self) s hdfs_path = Inr bcontent"
  shows "(format = None \<longrightarrow> decode_utf8 (stdlib self) bcontent = Some text \<longrightarrow>
            read_file self s path hdfs_path format = Inr (text, ''text'')) \<and>
         (format = None \<longrightarrow> decode_utf8 (stdlib self) bcontent = None \<longrightarrow>
            read_file self s path hdfs_path format =
              Inr (encodebytes (stdlib self) bcontent, ''base64'')) \<and>
         (format = Some ''text'' \<longrightarrow> decode_utf8 (stdlib self) bcontent = Some text \<longrightarrow>
            read_file self s path hdfs_path format = Inr (text, ''text'')) \<and>
         (format = Some ''text'' \<longrightarrow> decode_utf8 (stdlib self) bcontent = None \<longrightarrow>
            read_file self s path hdfs_path format =
              Inl (HTTPError 400 (Is_not_UTF8_encoded path))) \<and>
         (format \<noteq> None \<longrightarrow> format \<noteq> Some ''text'' \<longrightarrow>
            read_file self s path hdfs_path format =
              Inr (encodebytes (stdlib self) bcontent, ''base64''))"
  using assms by (simp add: read_file_def perm_to_403_def)

text \<open>
  Claim C4. \<^verbatim>\<open>delete_file\<close> fails with a 404 when the path does not exist. On a directory
  whose listing succeeds it fails with the 400 "Directory not empty", leaving the state
  as it is, exactly when the name of some child is not the checkpoint directory's name;
  otherwise (no child, or only the checkpoint child) it deletes the directory. On an
  existing path that is not a directory it deletes the file without further test.
\<close>

theorem delete_file_cases:
  "(path_exist self s (hdfs_path_of self path) = Inr False \<longrightarrow>
      delete_file self s path =
        (Inl (HTTPError 404 (File_or_directory_does_not_exist path)), s)) \<and>
   (path_exist self s (hdfs_path_of self path) = Inr True \<longrightarrow>
    is_dir self s (hdfs_path_of self path) = Inr True \<longrightarrow>
    list_dir self s (hdfs_path_of self path) = Inr files \<longrightarrow>
      (fst (delete_file self s path) = Inl (HTTPError 400 (Directory_not_empty path)) \<longleftrightarrow>
         (\<exists>f \<in> set files. Some (rsplit_last (info_path f)) \<noteq> checkpoint_dir self)) \<and>
      ((\<exists>f \<in> set files. Some (rsplit_last (info_path f)) \<noteq> checkpoint_dir self) \<longrightarrow>
         snd (delete_file self s path) = s) \<and>
      ((\<forall>f \<in> set files. Some (rsplit_last (info_path f)) = checkpoint_dir self) \<longrightarrow>
         delete_file self s path =
           (perm_to_403 path (fst (fs_delete_dir (fs self) s (hdfs_path_of self path))),
            snd (fs_delete_dir (fs self) s (hdfs_path_of self path))))) \<and>
   (path_exist self s (hdfs_path_of self path) = Inr True \<longrightarrow>
    is_dir self s (hdfs_path_of self path) = Inr False \<longrightarrow>
      delete_file self s path =
        (perm_to_403 path (fst (fs_delete_file (fs self) s (hdfs_path_of self path))),
         snd (fs_delete_file (fs self) s (hdfs_path_of self path))))"
proof -
  let ?hp = "hdfs_path_of self path"
  have empty: "is_dir_empty self s path ?hp =
      Inr (\<forall>f \<in> set files. Some (rsplit_last (info_path f)) = checkpoint_dir self)"
    if "list_dir self s ?hp = Inr files"
    using that by (cases files) (auto simp: is_dir_empty_def perm_to_403_def Let_def)
  have p403: "perm_to_403 path r \<noteq> Inl (HTTPError 400 (Directory_not_empty path))" for r :: "py_exn + unit"
    by (auto simp: perm_to_403_def split: sum.splits py_exn.splits)
  show ?thesis
    by (auto simp: delete_file_def Let_def empty p403 split: prod.splits)
qed

text \<open>
  Claim C5, amended. \<^verbatim>\<open>rename_file\<close> with equal paths returns without touching the state;
  with a destination that exists it fails with the 409 "File already exists", the state
  unchanged; otherwise it moves, and a failure of the move is raised as the 500 "Unknown
  error renaming file" carrying the cause, except a permission failure, which is the 403
  that \<^verbatim>\<open>perm_to_403\<close> makes of it.
\<close>

theorem rename_file_cases:
  "(old_path = new_path \<longrightarrow> rename_file self s old_path new_path = (Inr (), s)) \<and>
   (old_path \<noteq> new_path \<longrightarrow>
    path_exist self s (hdfs_path_of self new_path) = Inr True \<longrightarrow>
      rename_file self s old_path new_path =
        (Inl (HTTPError 409 (File_already_exists new_path)), s)) \<and>
   (old_path \<noteq> new_path \<longrightarrow>
    path_exist self s (hdfs_path_of self new_path) = Inr False \<longrightarrow>
    fs_move (fs self) s (hdfs_path_of self old_path) (hdfs_path_of self new_path) = (r, s') \<longrightarrow>
      rename_file self s old_path new_path =
        ((case r of
            Inr _ \<Rightarrow> Inr ()
          | Inl PermissionError \<Rightarrow> Inl (HTTPError 403 (Permission_denied old_path))
          | Inl e \<Rightarrow> Inl (HTTPError 500 (Unknown_error_renaming_file old_path e))), s'))"
  by (auto simp: rename_file_def Let_def perm_to_403_def split: sum.splits py_exn.splits)

text \<open>
  Claim C9, amended. \<^verbatim>\<open>save\<close> of a model whose type is present and is none of
  \<^verbatim>\<open>'notebook'\<close>, \<^verbatim>\<open>'file'\<close>, \<^verbatim>\<open>'directory'\<close> fails with a 400 and leaves the state as it
  is: "No file content provided" when the model has no content, "Unhandled contents
  type" otherwise.
\<close>

theorem save_unhandled_type:
  assumes "model ''type'' = Some typ"
    and "typ \<noteq> JString ''notebook''" and "typ \<noteq> JString ''file''"
    and "typ \<noteq> JString ''directory''"
  shows "save self s model path =
           (Inl (HTTPError 400
                   (if model ''content'' = None then No_file_content_provided
                    else Unhandled_contents_type typ)), s)"
  using assms by (simp add: save_def Let_def)


lemma created_is_last_modified_iff:
  "created_is_last_modified m \<longleftrightarrow>
     model_created m = model_last_modified m \<and>
     created_is_last_modified_content (model_content m)"
  by (cases m) simp

lemma set_format_sel [simp]:
  "model_created (set_format f m) = model_created m"
  "model_last_modified (set_format f m) = model_last_modified m"
  "model_content (set_format f m) = model_content m"
  by (cases m; simp)+

lemma set_mimetype_sel [simp]:
  "model_created (set_mimetype mt m) = model_created m"
  "model_last_modified (set_mimetype mt m) = model_last_modified m"
  "model_content (set_mimetype mt m) = model_content m"
  by (cases m; simp)+

lemma set_message_sel [simp]:
  "model_created (set_message msg m) = model_created m"
  "model_last_modified (set_message msg m) = model_last_modified m"
  "model_content (set_message msg m) = model_content m"
  by (cases m; simp)+

lemma set_content_sel [simp]:
  "model_created (set_content c m) = model_created m"
  "model_last_modified (set_content c m) = model_last_modified m"
  "model_content (set_content c m) = c"
  by (cases m; simp)+

lemma stamped_created: "stamped info m \<Longrightarrow> created_is_last_modified m"
  by (simp add: stamped_def created_is_last_modified_iff)

lemma model_from_info_stamped:
  "model_from_info self info type = Inr m \<Longrightarrow> stamped info m"
  by (auto simp: model_from_info_def stamped_def Let_def split: sum.splits)

lemma comprehension_all:
  "(\<And>x y. f x = Inr y \<Longrightarrow> P y) \<Longrightarrow> comprehension f xs = Inr ys \<Longrightarrow> list_all P ys"
  by (induction xs arbitrary: ys) (auto split: sum.splits)

lemma list_all_filter: "list_all P xs \<Longrightarrow> list_all P (filter Q xs)"
  by (induction xs) auto

lemma listing_created:
  assumes "comprehension (\<lambda>i. model_from_info self i None) xs = Inr ys"
  shows "list_all created_is_last_modified (filter Q ys)"
proof -
  have "created_is_last_modified y" if "model_from_info self x None = Inr y" for x y
    using that by (rule stamped_created [OF model_from_info_stamped])
  then have "list_all created_is_last_modified ys"
    using assms by (rule comprehension_all)
  then show ?thesis by (rule list_all_filter)
qed

lemma info_and_check_kind_info:
  "info_and_check_kind self s path hp kind = Inr info \<Longrightarrow>
     fs_get_file_info (fs self) s hp = Inr info"
  by (auto simp: info_and_check_kind_def split: sum.splits if_splits)

lemma dir_model_stamped:
  assumes "dir_model self s path hp content = Inr m"
  shows "\<exists>info. fs_get_file_info (fs self) s hp = Inr info \<and> stamped info m"
  using assms
  by (auto simp: dir_model_def stamped_def listing_created split: sum.splits if_splits
      dest!: model_from_info_stamped info_and_check_kind_info)

lemma file_model_stamped:
  assumes "file_model self s path hp content format = Inr m"
  shows "\<exists>info. fs_get_file_info (fs self) s hp = Inr info \<and> stamped info m"
  using assms
  by (auto simp: file_model_def stamped_def split: sum.splits if_splits prod.splits
      dest!: model_from_info_stamped info_and_check_kind_info)

lemma notebook_model_stamped:
  assumes "notebook_model self s path hp content = Inr m"
  shows "\<exists>info. fs_get_file_info (fs self) s hp = Inr info \<and> stamped info m"
  using assms
  by (auto simp: notebook_model_def stamped_def Let_def
      split: sum.splits if_splits option.splits
      dest!: model_from_info_stamped info_and_check_kind_info)

lemma get_stamped:
  assumes "get self s path content type format = Inr m"
  shows "\<exists>info. fs_get_file_info (fs self) s (hdfs_path_of self path) = Inr info \<and>
           stamped info m"
  using assms
  by (auto simp: get_def get_dispatch_def Let_def split: sum.splits if_splits option.splits
      dest: dir_model_stamped file_model_stamped notebook_model_stamped)

lemma save_reread_created:
  assumes "save_reread self s path typ message = Inr m"
  shows "created_is_last_modified m"
proof -
  from assms obtain m' where g: "get self s path False (Some typ) None = Inr m'"
    and m: "m = (case message of None \<Rightarrow> m' | Some x \<Rightarrow> set_message (Some x) m')"
    by (auto simp: save_reread_def split: sum.splits)
  from get_stamped [OF g] have "created_is_last_modified m'"
    by (auto dest: stamped_created)
  with m show ?thesis
    by (auto simp: created_is_last_modified_iff split: option.splits)
qed

lemma save_created:
  assumes "save self s model path = (Inr m, s')"
  shows "created_is_last_modified m"
  using assms
  by (auto simp: save_def Let_def split: option.splits if_splits prod.splits sum.splits
      dest: save_reread_created)

theorem read_file_policy_witness:
  "is_file (manager_on mem_filesystem) disk ''/r/b.bin'' = Inr True \<and>
   fs_open_input_stream (fs (manager_on mem_filesystem)) disk ''/r/b.bin'' = Inr [0xFF] \<and>
   decode_utf8 (stdlib (manager_on mem_filesystem)) [0xFF] = None \<and>
   read_file (manager_on mem_filesystem) disk ''b.bin'' ''/r/b.bin'' None =
     Inr (''/w=='' @ [CHR 0x0A], ''base64'') \<and>
   read_file (manager_on mem_filesystem) disk ''b.bin'' ''/r/b.bin'' (Some ''text'') =
     Inl (HTTPError 400 (Is_not_UTF8_encoded ''b.bin''))"
proof -
  let ?M = "manager_on mem_filesystem"
  have f: "is_file ?M disk ''/r/b.bin'' = Inr True"
    by code_simp
  have r: "fs_open_input_stream (fs ?M) disk ''/r/b.bin'' = Inr [0xFF]"
    by code_simp
  have d: "decode_utf8 (stdlib ?M) [0xFF] = None"
    by code_simp
  have e: "encodebytes (stdlib ?M) [0xFF] = ''/w=='' @ [CHR 0x0A]"
    by code_simp
  show ?thesis
    using f r d e read_file_policy [OF f r, of None undefined "''b.bin''"]
      read_file_policy [OF f r, of "Some ''text''" undefined "''b.bin''"]
    by simp
qed

theorem get_not_found_iff_witness:
  "path_exist (manager_on mem_filesystem) disk
     (hdfs_path_of (manager_on mem_filesystem) ''zz'') = Inr False \<and>
   fails_with 404 (get (manager_on mem_filesystem) disk ''zz'' True None None) \<and>
   path_exist (manager_on mem_filesystem) disk
     (hdfs_path_of (manager_on mem_filesystem) ''a.txt'') = Inr True \<and>
   refuses_hidden (manager_on mem_filesystem)
     (hdfs_path_of (manager_on mem_filesystem) ''a.txt'') = Inr False \<and>
   \<not> fails_with 404 (get (manager_on mem_filesystem) disk ''a.txt'' True None None) \<and>
   get (manager_on mem_filesystem) disk ''a.txt'' True None None =
     get_dispatch (manager_on mem_filesystem) disk ''a.txt''
       (hdfs_path_of (manager_on mem_filesystem) ''a.txt'') True None None"
proof -
  let ?M = "manager_on mem_filesystem"
  have a: "path_exist ?M disk (hdfs_path_of ?M ''zz'') = Inr False"
    by code_simp
  have b: "path_exist ?M disk (hdfs_path_of ?M ''a.txt'') = Inr True"
    by code_simp
  have c: "refuses_hidden ?M (hdfs_path_of ?M ''a.txt'') = Inr False"
    by code_simp
  have h: "hidden_hdfs_path ?M (hdfs_path_of ?M ''a.txt'') = Inr False"
    by code_simp
  from a get_not_found_iff [of ?M disk "''zz''" True None None]
  have nf: "fails_with 404 (get ?M disk ''zz'' True None None)"
    by blast
  from b h get_not_found_iff [of ?M disk "''a.txt''" True None None]
  have found: "\<not> fails_with 404 (get ?M disk ''a.txt'' True None None)"
    by simp
  from b c get_not_found_iff [of ?M disk "''a.txt''" True None None]
  have eq: "get ?M disk ''a.txt'' True None None =
      get_dispatch ?M disk ''a.txt'' (hdfs_path_of ?M ''a.txt'') True None None"
    by blast
  from a nf b c found eq show ?thesis
    by blast
qed

theorem delete_file_cases_witness:
  "path_exist (manager_on mem_filesystem) disk
     (hdfs_path_of (manager_on mem_filesystem) ''zz'') = Inr False \<and>
   delete_file (manager_on mem_filesystem) disk ''zz'' =
     (Inl (HTTPError 404 (File_or_directory_does_not_exist ''zz'')), disk) \<and>
   is_dir (manager_on mem_filesystem) disk
     (hdfs_path_of (manager_on mem_filesystem) ''d'') = Inr True \<and>
   list_dir (manager_on mem_filesystem) disk
     (hdfs_path_of (manager_on mem_filesystem) ''d'') =
     Inr [\<lparr>info_path = ''/r/d/.checkpoints'', info_type = Directory, info_size = None,
           info_mtime = Some 5\<rparr>] \<and>
   delete_file (manager_on mem_filesystem) disk ''d'' =
     (Inr (), filter (\<lambda>(q, n). q \<noteq> ''/r/d'' \<and> q \<noteq> ''/r/d/.checkpoints'') disk) \<and>
   is_dir (manager_on mem_filesystem) disk
     (hdfs_path_of (manager_on mem_filesystem) ''e'') = Inr True \<and>
   list_dir (manager_on mem_filesystem) disk
     (hdfs_path_of (manager_on mem_filesystem) ''e'') =
     Inr [\<lparr>info_path = ''/r/e/x.txt'', info_type = File, info_size = Some 1,
           info_mtime = Some 7\<rparr>] \<and>
   delete_file (manager_on mem_filesystem) disk ''e'' =
     (Inl (HTTPError 400 (Directory_not_empty ''e'')), disk) \<and>
   is_dir (manager_on mem_filesystem) disk
     (hdfs_path_of (manager_on mem_filesystem) ''a.txt'') = Inr False \<and>
   delete_file (manager_on mem_filesystem) disk ''a.txt'' =
     (Inr (), filter (\<lambda>(q, n). q \<noteq> ''/r/a.txt'') disk)"
proof -
  let ?M = "manager_on mem_filesystem"
  let ?cp = "\<lparr>info_path = ''/r/d/.checkpoints'', info_type = Directory, info_size = None,
             info_mtime = Some 5\<rparr>"
  let ?x = "\<lparr>info_path = ''/r/e/x.txt'', info_type = File, info_size = Some 1,
            info_mtime = Some 7\<rparr>"
  have zz: "path_exist ?M disk (hdfs_path_of ?M ''zz'') = Inr False"
    by code_simp
  have d_ex: "path_exist ?M disk (hdfs_path_of ?M ''d'') = Inr True"
    and d_dir: "is_dir ?M disk (hdfs_path_of ?M ''d'') = Inr True"
    and d_list: "list_dir ?M disk (hdfs_path_of ?M ''d'') = Inr [?cp]"
    and d_only: "\<forall>f \<in> set [?cp]. Some (rsplit_last (info_path f)) = checkpoint_dir ?M"
    and d_del: "fs_delete_dir (fs ?M) disk (hdfs_path_of ?M ''d'') =
        (Inr (), filter (\<lambda>(q, n). q \<noteq> ''/r/d'' \<and> q \<noteq> ''/r/d/.checkpoints'') disk)"
    by code_simp+
  have e_ex: "path_exist ?M disk (hdfs_path_of ?M ''e'') = Inr True"
    and e_dir: "is_dir ?M disk (hdfs_path_of ?M ''e'') = Inr True"
    and e_list: "list_dir ?M disk (hdfs_path_of ?M ''e'') = Inr [?x]"
    and e_some: "\<exists>f \<in> set [?x]. Some (rsplit_last (info_path f)) \<noteq> checkpoint_dir ?M"
    by code_simp+
  have a_ex: "path_exist ?M disk (hdfs_path_of ?M ''a.txt'') = Inr True"
    and a_dir: "is_dir ?M disk (hdfs_path_of ?M ''a.txt'') = Inr False"
    and a_del: "fs_delete_file (fs ?M) disk (hdfs_path_of ?M ''a.txt'') =
        (Inr (), filter (\<lambda>(q, n). q \<noteq> ''/r/a.txt'') disk)"
    by code_simp+
  from zz delete_file_cases [of ?M disk "''zz''"]
  have r1: "delete_file ?M disk ''zz'' =
      (Inl (HTTPError 404 (File_or_directory_does_not_exist ''zz'')), disk)"
    by blast
  from d_ex d_dir d_list d_only delete_file_cases [of ?M disk "''d''" "[?cp]"]
  have "delete_file ?M disk ''d'' =
      (perm_to_403 ''d'' (fst (fs_delete_dir (fs ?M) disk (hdfs_path_of ?M ''d''))),
       snd (fs_delete_dir (fs ?M) disk (hdfs_path_of ?M ''d'')))"
    by blast
  then have r2: "delete_file ?M disk ''d'' =
      (Inr (), filter (\<lambda>(q, n). q \<noteq> ''/r/d'' \<and> q \<noteq> ''/r/d/.checkpoints'') disk)"
    by (simp add: d_del perm_to_403_def)
  from e_ex e_dir e_list e_some delete_file_cases [of ?M disk "''e''" "[?x]"]
  have "fst (delete_file ?M disk ''e'') = Inl (HTTPError 400 (Directory_not_empty ''e''))"
    and "snd (delete_file ?M disk ''e'') = disk"
    by blast+
  then have r3: "delete_file ?M disk ''e'' =
      (Inl (HTTPError 400 (Directory_not_empty ''e'')), disk)"
    by (simp add: prod_eq_iff)
  from a_ex a_dir delete_file_cases [of ?M disk "''a.txt''"]
  have "delete_file ?M disk ''a.txt'' =
      (perm_to_403 ''a.txt'' (fst (fs_delete_file (fs ?M) disk (hdfs_path_of ?M ''a.txt''))),
       snd (fs_delete_file (fs ?M) disk (hdfs_path_of ?M ''a.txt'')))"
    by blast
  then have r4: "delete_file ?M disk ''a.txt'' =
      (Inr (), filter (\<lambda>(q, n). q \<noteq> ''/r/a.txt'') disk)"
    by (simp add: a_del perm_to_403_def)
  from zz r1 d_dir d_list r2 e_dir e_list r3 a_dir r4 show ?thesis
    by blast
qed

theorem rename_file_cases_witness:
  "rename_file (manager_on mem_filesystem) disk ''a.txt'' ''a.txt'' = (Inr (), disk) \<and>
   path_exist (manager_on mem_filesystem) disk
     (hdfs_path_of (manager_on mem_filesystem) ''b.bin'') = Inr True \<and>
   rename_file (manager_on mem_filesystem) disk ''a.txt'' ''b.bin'' =
     (Inl (HTTPError 409 (File_already_exists ''b.bin'')), disk) \<and>
   path_exist (manager_on mem_filesystem) disk
     (hdfs_path_of (manager_on mem_filesystem) ''zz'') = Inr False \<and>
   fs_move (fs (manager_on mem_filesystem)) disk
     (hdfs_path_of (manager_on mem_filesystem) ''nothing'')
     (hdfs_path_of (manager_on mem_filesystem) ''zz'') =
     (Inl (OtherError ''FileNotFoundError''), disk) \<and>
   rename_file (manager_on mem_filesystem) disk ''nothing'' ''zz'' =
     (Inl (HTTPError 500
        (Unknown_error_renaming_file ''nothing'' (OtherError ''FileNotFoundError''))), disk) \<and>
   fs_move (fs (manager_on readonly_filesystem)) disk
     (hdfs_path_of (manager_on readonly_filesystem) ''a.txt'')
     (hdfs_path_of (manager_on readonly_filesystem) ''zz'') = (Inl PermissionError, disk) \<and>
   rename_file (manager_on readonly_filesystem) disk ''a.txt'' ''zz'' =
     (Inl (HTTPError 403 (Permission_denied ''a.txt'')), disk)"
proof -
  let ?M = "manager_on mem_filesystem"
  let ?R = "manager_on readonly_filesystem"
  have ne: "''a.txt'' \<noteq> ''b.bin''" "''nothing'' \<noteq> ''zz''" "''a.txt'' \<noteq> ''zz''"
    by simp_all
  have b: "path_exist ?M disk (hdfs_path_of ?M ''b.bin'') = Inr True"
    and z: "path_exist ?M disk (hdfs_path_of ?M ''zz'') = Inr False"
    and zr: "path_exist ?R disk (hdfs_path_of ?R ''zz'') = Inr False"
    and mv: "fs_move (fs ?M) disk (hdfs_path_of ?M ''nothing'') (hdfs_path_of ?M ''zz'') =
        (Inl (OtherError ''FileNotFoundError''), disk)"
    and mvr: "fs_move (fs ?R) disk (hdfs_path_of ?R ''a.txt'') (hdfs_path_of ?R ''zz'') =
        (Inl PermissionError, disk)"
    by code_simp+
  from rename_file_cases [of "''a.txt''" "''a.txt''" ?M disk]
  have r1: "rename_file ?M disk ''a.txt'' ''a.txt'' = (Inr (), disk)"
    by blast
  from ne b rename_file_cases [of "''a.txt''" "''b.bin''" ?M disk]
  have r2: "rename_file ?M disk ''a.txt'' ''b.bin'' =
      (Inl (HTTPError 409 (File_already_exists ''b.bin'')), disk)"
    by blast
  from ne z mv rename_file_cases [of "''nothing''" "''zz''" ?M disk
      "Inl (OtherError ''FileNotFoundError'')" disk]
  have r3: "rename_file ?M disk ''nothing'' ''zz'' =
      (Inl (HTTPError 500
         (Unknown_error_renaming_file ''nothing'' (OtherError ''FileNotFoundError''))), disk)"
    by simp
  from ne zr mvr rename_file_cases [of "''a.txt''" "''zz''" ?R disk "Inl PermissionError" disk]
  have r4: "rename_file ?R disk ''a.txt'' ''zz'' =
      (Inl (HTTPError 403 (Permission_denied ''a.txt'')), disk)"
    by simp
  from r1 b r2 z mv r3 mvr r4 show ?thesis
    by blast
qed

text \<open>
  Claim C5 as stated fails where the client denies the move: the destination does not
  exist, the move raises \<^verbatim>\<open>PermissionError\<close>, and \<^verbatim>\<open>rename_file\<close> raises the 403
  "Permission denied", not a 500.
\<close>

theorem rename_permission_counterexample:
  "path_exist (manager_on readonly_filesystem) disk
     (hdfs_path_of (manager_on readonly_filesystem) ''c.txt'') = Inr False \<and>
   fs_move (fs (manager_on readonly_filesystem)) disk
     (hdfs_path_of (manager_on readonly_filesystem) ''a.txt'')
     (hdfs_path_of (manager_on readonly_filesystem) ''c.txt'') = (Inl PermissionError, disk) \<and>
   rename_file (manager_on readonly_filesystem) disk ''a.txt'' ''c.txt'' =
     (Inl (HTTPError 403 (Permission_denied ''a.txt'')), disk) \<and>
   \<not> fails_with 500 (fst (rename_file (manager_on readonly_filesystem) disk ''a.txt'' ''c.txt''))"
  by code_simp

theorem save_unhandled_type_witness:
  "[''type'' \<mapsto> JString ''symlink'', ''content'' \<mapsto> JString ''x''] ''type'' =
     Some (JString ''symlink'') \<and>
   save (manager_on mem_filesystem) disk
     [''type'' \<mapsto> JString ''symlink'', ''content'' \<mapsto> JString ''x''] ''c.txt'' =
     (Inl (HTTPError 400 (Unhandled_contents_type (JString ''symlink''))), disk) \<and>
   save (manager_on mem_filesystem) disk [''type'' \<mapsto> JNull] ''c.txt'' =
     (Inl (HTTPError 400 No_file_content_provided), disk)"
proof -
  let ?m = "[''type'' \<mapsto> JString ''symlink'', ''content'' \<mapsto> JString ''x'']"
  let ?n = "[''type'' \<mapsto> JNull]"
  have t: "?m ''type'' = Some (JString ''symlink'')" and c: "?m ''content'' \<noteq> None"
    and t': "?n ''type'' = Some JNull" and c': "?n ''content'' = None"
    by simp_all
  have ne: "JString ''symlink'' \<noteq> JString ''notebook''" "JString ''symlink'' \<noteq> JString ''file''"
    "JString ''symlink'' \<noteq> JString ''directory''"
    by simp_all
  from t ne c save_unhandled_type [of ?m "JString ''symlink''" "manager_on mem_filesystem" disk
      "''c.txt''"]
  have r1: "save (manager_on mem_filesystem) disk ?m ''c.txt'' =
      (Inl (HTTPError 400 (Unhandled_contents_type (JString ''symlink''))), disk)"
    by simp
  from t' c' save_unhandled_type [of ?n JNull "manager_on mem_filesystem" disk "''c.txt''"]
  have r2: "save (manager_on mem_filesystem) disk ?n ''c.txt'' =
      (Inl (HTTPError 400 No_file_content_provided), disk)"
    by simp
  from t r1 r2 show ?thesis
    by blast
qed

text \<open>
  Claim C9 as stated fails for a model with an unknown type and no content: the error
  is the 400 "No file content provided", not "Unhandled contents type".
\<close>

theorem save_unhandled_type_counterexample:
  "[''type'' \<mapsto> JString ''symlink''] ''type'' = Some (JString ''symlink'') \<and>
   save (manager_on mem_filesystem) disk [''type'' \<mapsto> JString ''symlink''] ''c.txt'' =
     (Inl (HTTPError 400 No_file_content_provided), disk) \<and>
   fst (save (manager_on mem_filesystem) disk [''type'' \<mapsto> JString ''symlink''] ''c.txt'') \<noteq>
     Inl (HTTPError 400 (Unhandled_contents_type (JString ''symlink'')))"
  by (simp add: save_def)

text \<open>
  Claim C3, at a model of type \<^verbatim>\<open>'file'\<close> with content and no \<^verbatim>\<open>'format'\<close> key: the
  format is neither \<^verbatim>\<open>'text'\<close> nor \<^verbatim>\<open>'base64'\<close>, and \<^verbatim>\<open>save\<close> raises \<^verbatim>\<open>KeyError\<close> from
  \<^verbatim>\<open>model['format']\<close> instead of the 400 "Must specify format"; the same model with
  \<^verbatim>\<open>'format': None\<close> gets the 400.
\<close>

theorem save_file_without_format:
  "[''type'' \<mapsto> JString ''file'', ''content'' \<mapsto> JString ''hi''] ''format'' = None \<and>
   save (manager_on mem_filesystem) disk
     [''type'' \<mapsto> JString ''file'', ''content'' \<mapsto> JString ''hi''] ''c.txt'' =
     (Inl (Raised (KeyError ''format'')), disk) \<and>
   save (manager_on mem_filesystem) disk
     [''type'' \<mapsto> JString ''file'', ''content'' \<mapsto> JString ''hi'', ''format'' \<mapsto> JNull]
     ''c.txt'' =
     (Inl (HTTPError 400 Must_specify_format), disk)"
  by code_simp

text \<open>
  Claim C6, at a path occupied by a file: \<^verbatim>\<open>_save_directory\<close> tests \<^verbatim>\<open>self.exists\<close> on the
  physical path, which maps it to a physical path once more; nothing is there, so the
  manager calls \<^verbatim>\<open>create_dir\<close> on the file's path and the client's exception leaves
  \<^verbatim>\<open>save\<close>, instead of the 400 "Not a directory".
\<close>

theorem save_directory_over_file:
  "fs_get_file_info (fs (manager_on mem_filesystem)) disk
     (hdfs_path_of (manager_on mem_filesystem) ''a.txt'') =
     Inr \<lparr>info_path = ''/r/a.txt'', info_type = File, info_size = Some 2, info_mtime = Some 2\<rparr> \<and>
   exists (manager_on mem_filesystem) disk (hdfs_path_of (manager_on mem_filesystem) ''a.txt'') =
     path_exist (manager_on mem_filesystem) disk ''/r/r/a.txt'' \<and>
   exists (manager_on mem_filesystem) disk (hdfs_path_of (manager_on mem_filesystem) ''a.txt'') =
     Inr False \<and>
   save (manager_on mem_filesystem) disk [''type'' \<mapsto> JString ''directory''] ''a.txt'' =
     (Inl (Raised (OtherError ''FileExistsError'')), disk) \<and>
   fs_create_dir (fs (manager_on mem_filesystem)) disk ''/r/a.txt'' =
     (Inl (OtherError ''FileExistsError''), disk)"
  by code_simp

text \<open>
  Claim C7, at a directory whose name ends in \<^verbatim>\<open>.ipynb\<close>: \<^verbatim>\<open>get\<close> with no explicit type
  infers \<^verbatim>\<open>'notebook'\<close> from the suffix before it looks at the metadata, and fails with
  the 400 "is not a FileType.File"; \<^verbatim>\<open>_model_from_info\<close> on the same metadata gives the
  type \<^verbatim>\<open>'directory'\<close> with no size.
\<close>

theorem get_directory_named_like_notebook:
  "fs_get_file_info (fs (manager_on mem_filesystem)) disk
     (hdfs_path_of (manager_on mem_filesystem) ''n.ipynb'') =
     Inr \<lparr>info_path = ''/r/n.ipynb'', info_type = Directory, info_size = None,
          info_mtime = Some 8\<rparr> \<and>
   get (manager_on mem_filesystem) disk ''n.ipynb'' True None None =
     Inl (HTTPError 400 (Is_not_a ''n.ipynb'' File)) \<and>
   model_from_info (manager_on mem_filesystem)
     \<lparr>info_path = ''/r/n.ipynb'', info_type = Directory, info_size = None,
      info_mtime = Some 8\<rparr> None =
     Inr (Model ''n.ipynb'' ''n.ipynb'' (Some 8) (Some 8) ''directory'' None None
            ContentNone None True None)"
  by code_simp

subsection \<open>The content and the format reach the file model\<close>

lemma read_file_format:
  "read_file self s path hdfs_path format = Inr (c, f) \<Longrightarrow> f = ''text'' \<or> f = ''base64''"
  by (auto simp: read_file_def split: sum.splits if_splits option.splits)

lemma model_format_set_format [simp]: "model_format (set_format f m) = f"
  by (cases m) simp

lemma file_model_content:
  assumes "file_model self s path hdfs_path True format = Inr m"
  shows "\<exists>c f. read_file self s path hdfs_path format = Inr (c, f) \<and>
           model_content m = ContentText c \<and> model_format m = Some f"
  using assms
  by (auto simp: file_model_def default_mimetype_def
      split: sum.splits if_splits prod.splits dest: read_file_format)

subsection \<open>The three departures, for every client\<close>

lemma save_file_missing_format:
  "model ''format'' = None \<Longrightarrow>
     save_file self s path hdfs_path model = (Inl (Raised (KeyError ''format'')), s)"
  by (simp add: save_file_def)

lemma save_file_with_format:
  assumes "model ''format'' = Some format" and "model ''content'' = Some (JString text)"
  shows "(format = JString ''text'' \<longrightarrow>
            save_file self s path hdfs_path model =
              (case encode_utf8 (stdlib self) text of
                 Inl e \<Rightarrow> (Inl (HTTPError 400 (Encoding_error_saving path e)), s)
               | Inr b \<Rightarrow>
                   (perm_to_403 path (fst (fs_open_output_stream (fs self) s hdfs_path b)),
                    snd (fs_open_output_stream (fs self) s hdfs_path b)))) \<and>
         (format = JString ''base64'' \<longrightarrow>
            save_file self s path hdfs_path model =
              (case decodebytes (stdlib self) text of
                 Inl e \<Rightarrow> (Inl (HTTPError 400 (Encoding_error_saving path e)), s)
               | Inr b \<Rightarrow>
                   (perm_to_403 path (fst (fs_open_output_stream (fs self) s hdfs_path b)),
                    snd (fs_open_output_stream (fs self) s hdfs_path b)))) \<and>
         (format_not_in format = Inr True \<longrightarrow>
            save_file self s path hdfs_path model = (Inl (HTTPError 400 Must_specify_format), s))"
  using assms
  by (auto simp: save_file_def format_not_in_def encode_content_def
      split: sum.splits prod.splits)

lemma exists_maps_again:
  "exists self s hdfs_path =
     path_exist self s
       (to_fs_path (utils self) hdfs_path
          (get_prefix_from_fs_path (utils self) hdfs_path (root_dir self) (shared_dir self)))"
  by (simp add: exists_def hdfs_path_of_def)

lemma save_directory_creates:
  assumes "refuses_hidden self hdfs_path = Inr False" and "exists self s hdfs_path = Inr False"
  shows "save_directory self s path hdfs_path =
           (perm_to_403 path (fst (fs_create_dir (fs self) s hdfs_path)),
            snd (fs_create_dir (fs self) s hdfs_path))"
  using assms by (simp add: save_directory_def split: prod.splits)

lemma get_dispatch_directory_named_ipynb:
  assumes "endswith hdfs_path ''.ipynb''"
    and "fs_get_file_info (fs self) s hdfs_path = Inr info"
    and "info_type info = Directory"
  shows "get_dispatch self s path hdfs_path content None format =
           Inl (HTTPError 400 (Is_not_a path File))"
  using assms
  by (simp add: get_dispatch_def infer_type_def notebook_model_def info_and_check_kind_def)

lemma model_from_info_directory:
  assumes "info_type info = Directory" and "model_from_info self info None = Inr m"
  shows "model_type m = ''directory'' \<and> model_size m = None"
  using assms by (auto simp: model_from_info_def Let_def split: sum.splits)

subsection \<open>Timestamps of the models\<close>

lemma model_from_info_content:
  "model_from_info self info type = Inr m \<Longrightarrow> model_content m = ContentNone"
  by (auto simp: model_from_info_def Let_def split: sum.splits)

lemma comprehension_source:
  "comprehension f xs = Inr ys \<Longrightarrow> y \<in> set ys \<Longrightarrow> \<exists>x \<in> set xs. f x = Inr y"
  by (induction xs arbitrary: ys) (auto split: sum.splits)

lemma perm_to_403_Inr: "perm_to_403 path r = Inr x \<Longrightarrow> r = Inr x"
  by (auto simp: perm_to_403_def split: sum.splits py_exn.splits)

lemma dir_model_listing:
  assumes "dir_model self s path hp content = Inr m" and "c \<in> set (listing m)"
  shows "\<exists>records i. list_dir self s hp = Inr records \<and> i \<in> set records \<and>
           model_from_info self i None = Inr c"
proof -
  from assms obtain m0 records contents Q
    where m0: "model_content m0 = ContentNone"
      and l: "list_dir self s hp = Inr records"
      and cs: "comprehension (\<lambda>i. model_from_info self i None) records = Inr contents"
      and c: "c \<in> set (filter Q contents)"
    by (auto simp: dir_model_def listing_def split: sum.splits if_splits
        dest!: perm_to_403_Inr model_from_info_content)
  from c have "c \<in> set contents" by simp
  from comprehension_source [OF cs this] l show ?thesis by blast
qed

lemma dir_model_no_content:
  "dir_model self s path hp False = Inr m \<Longrightarrow> model_content m = ContentNone"
  by (auto simp: dir_model_def split: sum.splits dest: model_from_info_content)

lemma file_model_listing: "file_model self s path hp content format = Inr m \<Longrightarrow> listing m = []"
  by (auto simp: file_model_def listing_def split: sum.splits if_splits prod.splits
      dest!: model_from_info_content)

lemma file_model_no_content:
  "file_model self s path hp False format = Inr m \<Longrightarrow> model_content m = ContentNone"
  by (auto simp: file_model_def split: sum.splits dest: model_from_info_content)

lemma notebook_model_listing: "notebook_model self s path hp content = Inr m \<Longrightarrow> listing m = []"
  by (auto simp: notebook_model_def listing_def Let_def
      split: sum.splits if_splits option.splits dest!: model_from_info_content)

lemma notebook_model_no_content:
  "notebook_model self s path hp False = Inr m \<Longrightarrow> model_content m = ContentNone"
  by (auto simp: notebook_model_def split: sum.splits dest: model_from_info_content)

lemma get_cases:
  assumes "get self s path content type format = Inr m"
  shows "dir_model self s path (hdfs_path_of self path) content = Inr m \<or>
         notebook_model self s path (hdfs_path_of self path) content = Inr m \<or>
         file_model self s path (hdfs_path_of self path) content format = Inr m"
  using assms
  by (auto simp: get_def get_dispatch_def Let_def split: sum.splits if_splits option.splits)

lemma get_listing:
  assumes "get self s path content type format = Inr m" and "c \<in> set (listing m)"
  shows "\<exists>records i. list_dir self s (hdfs_path_of self path) = Inr records \<and>
           i \<in> set records \<and> model_from_info self i None = Inr c"
proof -
  from get_cases [OF assms(1)] consider
      (dir) "dir_model self s path (hdfs_path_of self path) content = Inr m"
    | (nb) "notebook_model self s path (hdfs_path_of self path) content = Inr m"
    | (plain) "file_model self s path (hdfs_path_of self path) content format = Inr m"
    by blast
  then show ?thesis
  proof cases
    case dir
    then show ?thesis using assms(2) by (rule dir_model_listing)
  next
    case nb
    from notebook_model_listing [OF nb] assms(2) show ?thesis by simp
  next
    case plain
    from file_model_listing [OF plain] assms(2) show ?thesis by simp
  qed
qed

lemma get_no_content:
  "get self s path False type format = Inr m \<Longrightarrow> model_content m = ContentNone"
  by (auto simp: get_def get_dispatch_def Let_def split: sum.splits if_splits option.splits
      dest: dir_model_no_content file_model_no_content notebook_model_no_content)

lemma save_reread_stamped:
  assumes "save_reread self s path typ message = Inr m"
  shows "(\<exists>i. fs_get_file_info (fs self) s (hdfs_path_of self path) = Inr i \<and> stamped i m) \<and>
         model_content m = ContentNone"
proof -
  from assms obtain m' where g: "get self s path False (Some typ) None = Inr m'"
    and m: "m = (case message of None \<Rightarrow> m' | Some x \<Rightarrow> set_message (Some x) m')"
    by (auto simp: save_reread_def split: sum.splits)
  from get_stamped [OF g] get_no_content [OF g] m show ?thesis
    by (auto simp: stamped_def split: option.splits)
qed

lemma save_stamped:
  assumes "save self s model path = (Inr m, s')"
  shows "(\<exists>i. fs_get_file_info (fs self) s' (hdfs_path_of self path) = Inr i \<and> stamped i m) \<and>
         model_content m = ContentNone"
  using assms
  by (auto simp: save_def Let_def split: option.splits if_splits prod.splits sum.splits
      dest: save_reread_stamped)

text \<open>
  Claim C10. The model built from a \<^verbatim>\<open>FileInfo\<close> has \<^verbatim>\<open>'created'\<close> and \<^verbatim>\<open>'last_modified'\<close>
  both equal to the modification time of the info. In the model \<^verbatim>\<open>get\<close> returns both are
  the modification time of the path's metadata, and every model of its listing is built
  from a \<^verbatim>\<open>FileInfo\<close> of the directory listing and has both equal to that info's
  modification time. In the model \<^verbatim>\<open>save\<close> returns both are the modification time of
  the path's metadata in the state the save leaves, and it lists nothing.
\<close>

theorem created_equals_last_modified:
  "(model_from_info self info type = Inr m \<longrightarrow>
      model_created m = info_mtime info \<and> model_last_modified m = info_mtime info) \<and>
   (get self s path content type format = Inr m \<longrightarrow>
      created_is_last_modified m \<and>
      (\<exists>i. fs_get_file_info (fs self) s (hdfs_path_of self path) = Inr i \<and>
           model_created m = info_mtime i \<and> model_last_modified m = info_mtime i) \<and>
      (\<forall>c \<in> set (listing m).
         \<exists>records i. list_dir self s (hdfs_path_of self path) = Inr records \<and>
           i \<in> set records \<and> model_from_info self i None = Inr c \<and>
           model_created c = info_mtime i \<and> model_last_modified c = info_mtime i \<and>
           listing c = [])) \<and>
   (save self s model path = (Inr m, s') \<longrightarrow>
      created_is_last_modified m \<and>
      (\<exists>i. fs_get_file_info (fs self) s' (hdfs_path_of self path) = Inr i \<and>
           model_created m = info_mtime i \<and> model_last_modified m = info_mtime i) \<and>
      listing m = [])"
proof (intro conjI impI)
  assume "model_from_info self info type = Inr m"
  from model_from_info_stamped [OF this]
  show "model_created m = info_mtime info" and "model_last_modified m = info_mtime info"
    by (simp_all add: stamped_def)
next
  assume g: "get self s path content type format = Inr m"
  from get_stamped [OF g]
  show "created_is_last_modified m"
    and "\<exists>i. fs_get_file_info (fs self) s (hdfs_path_of self path) = Inr i \<and>
           model_created m = info_mtime i \<and> model_last_modified m = info_mtime i"
    by (auto simp: stamped_def created_is_last_modified_iff)
  show "\<forall>c \<in> set (listing m).
         \<exists>records i. list_dir self s (hdfs_path_of self path) = Inr records \<and>
           i \<in> set records \<and> model_from_info self i None = Inr c \<and>
           model_created c = info_mtime i \<and> model_last_modified c = info_mtime i \<and>
           listing c = []"
  proof
    fix c
    assume "c \<in> set (listing m)"
    from get_listing [OF g this] obtain records i
      where l: "list_dir self s (hdfs_path_of self path) = Inr records" "i \<in> set records"
        and c: "model_from_info self i None = Inr c"
      by blast
    from model_from_info_stamped [OF c] model_from_info_content [OF c]
    have "model_created c = info_mtime i \<and> model_last_modified c = info_mtime i \<and>
        listing c = []"
      by (simp add: stamped_def listing_def)
    with l c show "\<exists>records i. list_dir self s (hdfs_path_of self path) = Inr records \<and>
           i \<in> set records \<and> model_from_info self i None = Inr c \<and>
           model_created c = info_mtime i \<and> model_last_modified c = info_mtime i \<and>
           listing c = []"
      by blast
  qed
next
  assume sv: "save self s model path = (Inr m, s')"
  from save_stamped [OF sv]
  show "created_is_last_modified m"
    and "\<exists>i. fs_get_file_info (fs self) s' (hdfs_path_of self path) = Inr i \<and>
           model_created m = info_mtime i \<and> model_last_modified m = info_mtime i"
    and "listing m = []"
    by (auto simp: stamped_def created_is_last_modified_iff listing_def)
qed

theorem created_equals_last_modified_witness:
  "get (manager_on mem_filesystem) disk ''e'' True None None =
     Inr (Model ''e'' ''e'' (Some 6) (Some 6) ''directory'' None None
            (ContentList
               [Model ''x.txt'' ''e/x.txt'' (Some 7) (Some 7) ''file'' (Some 1)
                  (Some ''text/plain'') ContentNone None True None])
            (Some ''json'') True None) \<and>
   created_is_last_modified
     (Model ''e'' ''e'' (Some 6) (Some 6) ''directory'' None None
        (ContentList
           [Model ''x.txt'' ''e/x.txt'' (Some 7) (Some 7) ''file'' (Some 1)
              (Some ''text/plain'') ContentNone None True None])
        (Some ''json'') True None) \<and>
   fs_get_file_info (fs (manager_on mem_filesystem)) disk
     (hdfs_path_of (manager_on mem_filesystem) ''e'') =
     Inr \<lparr>info_path = ''/r/e'', info_type = Directory, info_size = None, info_mtime = Some 6\<rparr> \<and>
   list_dir (manager_on mem_filesystem) disk (hdfs_path_of (manager_on mem_filesystem) ''e'') =
     Inr [\<lparr>info_path = ''/r/e/x.txt'', info_type = File, info_size = Some 1,
           info_mtime = Some 7\<rparr>] \<and>
   model_from_info (manager_on mem_filesystem)
     \<lparr>info_path = ''/r/e/x.txt'', info_type = File, info_size = Some 1, info_mtime = Some 7\<rparr>
     None =
     Inr (Model ''x.txt'' ''e/x.txt'' (Some 7) (Some 7) ''file'' (Some 1)
            (Some ''text/plain'') ContentNone None True None) \<and>
   save (manager_on mem_filesystem) disk
     [''type'' \<mapsto> JString ''file'', ''content'' \<mapsto> JString ''hi'',
      ''format'' \<mapsto> JString ''text''] ''c.txt'' =
     (Inr (Model ''c.txt'' ''c.txt'' (Some 0) (Some 0) ''file'' (Some 2)
             (Some ''text/plain'') ContentNone None True None),
      (''/r/c.txt'', FileNode [0x68, 0x69] 0) # disk) \<and>
   fs_get_file_info (fs (manager_on mem_filesystem))
     ((''/r/c.txt'', FileNode [0x68, 0x69] 0) # disk)
     (hdfs_path_of (manager_on mem_filesystem) ''c.txt'') =
     Inr \<lparr>info_path = ''/r/c.txt'', info_type = File, info_size = Some 2, info_mtime = Some 0\<rparr> \<and>
   (\<exists>i. fs_get_file_info (fs (manager_on mem_filesystem))
          ((''/r/c.txt'', FileNode [0x68, 0x69] 0) # disk)
          (hdfs_path_of (manager_on mem_filesystem) ''c.txt'') = Inr i \<and>
        model_created
          (Model ''c.txt'' ''c.txt'' (Some 0) (Some 0) ''file'' (Some 2)
             (Some ''text/plain'') ContentNone None True None) = info_mtime i \<and>
        model_last_modified
          (Model ''c.txt'' ''c.txt'' (Some 0) (Some 0) ''file'' (Some 2)
             (Some ''text/plain'') ContentNone None True None) = info_mtime i)"
proof -
  let ?M = "manager_on mem_filesystem"
  let ?c = "Model ''x.txt'' ''e/x.txt'' (Some 7) (Some 7) ''file'' (Some 1)
              (Some ''text/plain'') ContentNone None True None"
  let ?m = "Model ''e'' ''e'' (Some 6) (Some 6) ''directory'' None None
        (ContentList [?c]) (Some ''json'') True None"
  let ?x = "\<lparr>info_path = ''/r/e/x.txt'', info_type = File, info_size = Some 1,
            info_mtime = Some 7\<rparr>"
  let ?d = "[''type'' \<mapsto> JString ''file'', ''content'' \<mapsto> JString ''hi'',
      ''format'' \<mapsto> JString ''text'']"
  let ?n = "Model ''c.txt'' ''c.txt'' (Some 0) (Some 0) ''file'' (Some 2)
             (Some ''text/plain'') ContentNone None True None"
  let ?disk' = "(''/r/c.txt'', FileNode [0x68, 0x69] 0) # disk"
  have g: "get ?M disk ''e'' True None None = Inr ?m"
    by code_simp
  have i: "fs_get_file_info (fs ?M) disk (hdfs_path_of ?M ''e'') =
      Inr \<lparr>info_path = ''/r/e'', info_type = Directory, info_size = None, info_mtime = Some 6\<rparr>"
    by code_simp
  have l: "list_dir ?M disk (hdfs_path_of ?M ''e'') = Inr [?x]"
    by code_simp
  have c: "model_from_info ?M ?x None = Inr ?c"
    by code_simp
  have sv: "save ?M disk ?d ''c.txt'' = (Inr ?n, ?disk')"
    by code_simp
  have i': "fs_get_file_info (fs ?M) ?disk' (hdfs_path_of ?M ''c.txt'') =
      Inr \<lparr>info_path = ''/r/c.txt'', info_type = File, info_size = Some 2, info_mtime = Some 0\<rparr>"
    by code_simp
  from g created_equals_last_modified [of ?M _ None ?m disk "''e''" True None]
  have a: "created_is_last_modified ?m"
    by blast
  from sv created_equals_last_modified [of ?M _ _ ?n disk "''c.txt''" _ _ ?d ?disk']
  have b: "\<exists>i. fs_get_file_info (fs ?M) ?disk' (hdfs_path_of ?M ''c.txt'') = Inr i \<and>
      model_created ?n = info_mtime i \<and> model_last_modified ?n = info_mtime i"
    by blast
  from g a i l c sv i' b show ?thesis
    by blast
qed

subsection \<open>The path functions of the spec\<close>


lemma startswith_append [simp]: "startswith (t @ u) t"
  by (simp add: startswith_def)




lemma split_path_not_Nil [simp]: "split_path acc s \<noteq> []"
  by (induction s arbitrary: acc) auto





















end
